theory Spec2Isabelle
  imports Complex_Main "HOL-Library.Product_Lexorder"
begin

section \<open>Values shared by the pipeline stages\<close>

text \<open>
  A Python float is either a finite number or NaN. Finite floats are idealised as reals:
  the properties below are about which rows flow where and which operation is applied,
  not about rounding error.
\<close>

datatype pyfloat = Fin real | NaN

text \<open>A value stored in a location field of an event record: \<open>None\<close>, a bare float,
  a list (or numpy array) whose elements are numbers or \<open>None\<close>, or anything else
  (a string, a dict).\<close>

datatype pyval = PyNone | PyFloat pyfloat | PyList "pyfloat option list" | PyOther

section \<open>Location unpacking (pipeline/utils.py)\<close>

text \<open>\<open>float(arr[k]) if len(arr) > k and arr[k] is not None else None\<close>; \<open>float\<close> of a
  number is that number.\<close>

definition elem_at :: "pyfloat option list \<Rightarrow> nat \<Rightarrow> pyfloat option" where
  "elem_at arr k = (if length arr > k \<and> arr ! k \<noteq> None then arr ! k else None)"

fun extract_value :: "pyval \<Rightarrow> pyfloat option list" where
  "extract_value PyNone = [None, None, None]"
| "extract_value (PyFloat v) = (if v = NaN then [None, None, None] else [None, None, None])"
| "extract_value (PyList arr) = [elem_at arr 0, elem_at arr 1, elem_at arr 2]"
| "extract_value PyOther = [None, None, None]"

text \<open>pandas \<open>isna\<close>: \<open>None\<close> and NaN are both null.\<close>

fun isna :: "pyfloat option \<Rightarrow> bool" where
  "isna None = True"
| "isna (Some NaN) = True"
| "isna (Some (Fin v)) = False"

text \<open>The returned frame: the x and y columns, and the z column unless it was dropped.\<close>

record location_frame =
  col_x :: "pyfloat option list"
  col_y :: "pyfloat option list"
  col_z :: "pyfloat option list option"

definition unpack_location :: "pyval list \<Rightarrow> location_frame" where
  "unpack_location series =
     (let unpacked = map extract_value series;
          zs = map (\<lambda>r. r ! 2) unpacked
      in \<lparr> col_x = map (\<lambda>r. r ! 0) unpacked,
           col_y = map (\<lambda>r. r ! 1) unpacked,
           col_z = (if list_all isna zs then None else Some zs) \<rparr>)"

definition xy_at :: "location_frame \<Rightarrow> nat \<Rightarrow> pyfloat option \<times> pyfloat option" where
  "xy_at f i = (col_x f ! i, col_y f ! i)"

section \<open>Errors\<close>

text \<open>The artifacts of the raw and bronze directories, one per logical unit:
  \<open>competitions\<close>, \<open>matches/<competition>_<season>\<close>, \<open>events/<match>\<close>,
  \<open>lineups/<match>\<close>.\<close>

datatype unit_id = Competitions | Matches int int | Events int | Lineups int

text \<open>The exceptions the modelled code raises; \<open>Raised\<close> stands for any other exception
  of a frame computation.\<close>

datatype error = KeyError string | FileNotFoundError unit_id | IntCastingNaNError | Raised string

section \<open>Silver layer (pipeline/silver.py)\<close>

subsection \<open>The events frame and the passes table\<close>

text \<open>
  A row of the concatenated, normalised bronze events frame, with the columns the passes
  table reads. Id and timing columns are typed as nullable integers, so \<open>_int_col\<close> is the
  identity on them; a null string cell (\<open>None\<close> or NaN) is \<open>None\<close>. The frame lists the
  columns it has: a bronze file set without a single pass outcome has no
  \<open>pass_outcome\<close> column at all.
\<close>

record event =
  ev_id :: string
  ev_match_id :: int
  ev_type :: "string option"
  ev_player_id :: "int option"
  ev_team_id :: "int option"
  ev_period :: "int option"
  ev_minute :: "int option"
  ev_second :: "int option"
  ev_location :: pyval
  ev_pass_end_location :: pyval
  ev_pass_outcome :: "string option"
  ev_pass_type :: "string option"
  ev_pass_recipient_id :: "int option"

record events_frame =
  columns :: "string list"
  rows :: "event list"

text \<open>\<open>_col(df, name)\<close>: the column if the frame has it, else a null series of the same
  length. The null of the column's type is passed in.\<close>

definition col :: "events_frame \<Rightarrow> string \<Rightarrow> 'a \<Rightarrow> (event \<Rightarrow> 'a) \<Rightarrow> 'a list" where
  "col df name null get =
     (if name \<notin> set (columns df) then replicate (length (rows df)) null
      else map get (rows df))"

text \<open>A pandas float cell written to a DuckDB DOUBLE column: NaN and \<open>None\<close> are NULL.\<close>

fun to_double :: "pyfloat option \<Rightarrow> real option" where
  "to_double None = None"
| "to_double (Some NaN) = None"
| "to_double (Some (Fin v)) = Some v"

text \<open>A row of \<open>fact_passes\<close>. The columns \<open>length\<close>, \<open>angle\<close>, \<open>height\<close>, \<open>body_part\<close>,
  \<open>technique\<close> and the boolean flags are further projections of the same event row; no
  later stage modelled here reads them and they are left out.\<close>

record pass_row =
  p_event_id :: string
  p_match_id :: int
  p_player_id :: "int option"
  p_team_id :: "int option"
  p_period :: "int option"
  p_minute :: "int option"
  p_second :: "int option"
  p_location_x :: "real option"
  p_location_y :: "real option"
  p_end_location_x :: "real option"
  p_end_location_y :: "real option"
  p_outcome :: "string option"
  p_is_completed :: bool
  p_pass_type :: "string option"
  p_recipient_id :: "int option"

text \<open>\<open>build_fact_passes\<close>: the columns read with \<open>df[name]\<close> raise \<open>KeyError\<close> when the
  frame lacks them, in the order the code evaluates them; the others go through \<open>_col\<close>.
  \<open>is_completed\<close> is \<open>_col(passes, "pass_outcome").isna()\<close>.\<close>

definition build_fact_passes :: "events_frame \<Rightarrow> error + pass_row list" where
  "build_fact_passes df =
     (case find (\<lambda>c. c \<notin> set (columns df))
             [''type'', ''location'', ''id'', ''match_id'', ''period'', ''minute'', ''second''] of
        Some c \<Rightarrow> Inl (KeyError c)
      | None \<Rightarrow>
          (let passes = df \<lparr> rows := filter (\<lambda>e. ev_type e = Some ''Pass'') (rows df) \<rparr>;
               loc = unpack_location (map ev_location (rows passes));
               end_loc = unpack_location (col passes ''pass_end_location'' PyNone ev_pass_end_location);
               player = col passes ''player_id'' None ev_player_id;
               team = col passes ''team_id'' None ev_team_id;
               outcome = col passes ''pass_outcome'' None ev_pass_outcome;
               ptype = col passes ''pass_type'' None ev_pass_type;
               recipient = col passes ''pass_recipient_id'' None ev_pass_recipient_id
           in Inr (map (\<lambda>i.
                \<lparr> p_event_id = ev_id (rows passes ! i),
                  p_match_id = ev_match_id (rows passes ! i),
                  p_player_id = player ! i,
                  p_team_id = team ! i,
                  p_period = ev_period (rows passes ! i),
                  p_minute = ev_minute (rows passes ! i),
                  p_second = ev_second (rows passes ! i),
                  p_location_x = to_double (col_x loc ! i),
                  p_location_y = to_double (col_y loc ! i),
                  p_end_location_x = to_double (col_x end_loc ! i),
                  p_end_location_y = to_double (col_y end_loc ! i),
                  p_outcome = outcome ! i,
                  p_is_completed = (outcome ! i = None),
                  p_pass_type = ptype ! i,
                  p_recipient_id = recipient ! i \<rparr>)
              [0 ..< length (rows passes)])))"

subsection \<open>The stage: tables dropped and recreated one after the other\<close>

datatype table = dim_competition | dim_match | dim_team | dim_player
  | fact_events | fact_passes | fact_shots | fact_carries | fact_lineups
  | bridge_shot_freeze_frame

text \<open>The DuckDB store as far as the stage sees it: the contents of each table, \<open>None\<close>
  for a table that does not exist. \<open>'d\<close> is the type of a table's contents.\<close>

type_synonym 'd store = "table \<Rightarrow> 'd option"

text \<open>
  \<open>_drop_create\<close> runs two statements one after the other on the one connection, and the
  code opens no transaction: \<open>DROP TABLE IF EXISTS\<close>, which takes effect at once, then
  \<open>CREATE TABLE ... AS SELECT * FROM df\<close>, which raises when DuckDB cannot materialise the
  frame. \<open>create_raises df\<close> is that exception, if any; the table is then left dropped.
  The result is the store afterwards and the exception raised, if any.
\<close>

definition drop_create ::
  "('d \<Rightarrow> error option) \<Rightarrow> 'd store \<Rightarrow> table \<Rightarrow> 'd \<Rightarrow> 'd store \<times> error option" where
  "drop_create create_raises con t df =
     (let dropped = con (t := None)
      in case create_raises df of
           Some e \<Rightarrow> (dropped, Some e)
         | None \<Rightarrow> (dropped (t \<mapsto> df), None))"

text \<open>A statement of the \<open>try\<close> block of \<open>run\<close>: a builder, which computes its frame in
  pandas (this may raise) and then calls \<open>_drop_create\<close> (this may raise too), or the read
  of all bronze events, which writes nothing and may raise.\<close>

datatype 'd stmt = Build table "error + 'd" | Read "error option"

text \<open>Statements run in order; the first exception leaves the block (\<open>finally\<close> only
  closes the connection) with the store as it is at that point.\<close>

fun exec :: "('d \<Rightarrow> error option) \<Rightarrow> 'd store \<Rightarrow> 'd stmt list \<Rightarrow> 'd store \<times> error option" where
  "exec create_raises con [] = (con, None)"
| "exec create_raises con (Build t (Inl e) # rest) = (con, Some e)"
| "exec create_raises con (Build t (Inr df) # rest) =
     (case drop_create create_raises con t df of
        (con1, Some e) \<Rightarrow> (con1, Some e)
      | (con1, None) \<Rightarrow> exec create_raises con1 rest)"
| "exec create_raises con (Read (Some e) # rest) = (con, Some e)"
| "exec create_raises con (Read None # rest) = exec create_raises con rest"

text \<open>The frame computations are parameters: \<open>from_bronze t\<close> for the builders that read
  bronze themselves (the dimensions and the lineups), \<open>read_events\<close> for
  \<open>_read_bronze("events")\<close>, \<open>from_events t\<close> for the builders that take the events frame;
  and so is \<open>creation_error\<close>, the exception of DuckDB's \<open>CREATE TABLE\<close> on a frame.\<close>

record ('e, 'd) builders =
  from_bronze :: "table \<Rightarrow> error + 'd"
  read_events :: "error + 'e"
  from_events :: "table \<Rightarrow> 'e \<Rightarrow> error + 'd"
  creation_error :: "'d \<Rightarrow> error option"

definition events_stmts :: "('e, 'd) builders \<Rightarrow> 'd stmt list" where
  "events_stmts B =
     (case read_events B of
        Inl e \<Rightarrow> [Read (Some e)]
      | Inr df_events \<Rightarrow>
          [Read None,
           Build fact_events (from_events B fact_events df_events),
           Build fact_passes (from_events B fact_passes df_events),
           Build fact_shots (from_events B fact_shots df_events),
           Build fact_carries (from_events B fact_carries df_events),
           Build fact_lineups (from_bronze B fact_lineups),
           Build bridge_shot_freeze_frame (from_events B bridge_shot_freeze_frame df_events)])"

definition silver_run :: "('e, 'd) builders \<Rightarrow> 'd store \<Rightarrow> 'd store \<times> error option" where
  "silver_run B con =
     exec (creation_error B) con
       ([Build dim_competition (from_bronze B dim_competition),
         Build dim_match (from_bronze B dim_match),
         Build dim_team (from_bronze B dim_team),
         Build dim_player (from_bronze B dim_player)] @ events_stmts B)"

text \<open>The table a statement writes, and the exception it raises, if any: that of its
  frame computation, or else that of its \<open>CREATE TABLE\<close>.\<close>

fun stmt_table :: "'d stmt \<Rightarrow> table option" where
  "stmt_table (Build t r) = Some t"
| "stmt_table (Read r) = None"

fun tables_of :: "'d stmt list \<Rightarrow> table list" where
  "tables_of [] = []"
| "tables_of (Build t r # rest) = t # tables_of rest"
| "tables_of (Read r # rest) = tables_of rest"

fun raised :: "('d \<Rightarrow> error option) \<Rightarrow> 'd stmt \<Rightarrow> error option" where
  "raised create_raises (Build t (Inl e)) = Some e"
| "raised create_raises (Build t (Inr df)) = create_raises df"
| "raised create_raises (Read r) = r"

definition silver_stmts :: "('e, 'd) builders \<Rightarrow> 'd stmt list" where
  "silver_stmts B =
     [Build dim_competition (from_bronze B dim_competition),
      Build dim_match (from_bronze B dim_match),
      Build dim_team (from_bronze B dim_team),
      Build dim_player (from_bronze B dim_player)] @ events_stmts B"

section \<open>Bronze layer (pipeline/bronze.py)\<close>

text \<open>
  The two directories the stage touches: the raw JSON documents and the bronze Parquet
  artifacts, each a partial map from the unit to its contents. The conversion of a raw
  document into a frame (\<open>_json_to_df\<close>, the flattening of lineups) is the parameter
  \<open>to_parquet\<close> and is taken to succeed on every document that exists.
\<close>

record ('r, 'p) files =
  raw :: "unit_id \<rightharpoonup> 'r"
  bronze :: "unit_id \<rightharpoonup> 'p"

text \<open>The common shape of \<open>ingest_competitions\<close>, \<open>ingest_matches\<close>, \<open>ingest_events\<close> and
  \<open>ingest_lineups\<close>: skip when the artifact exists and \<open>force\<close> is off; otherwise read the
  source, which raises \<open>FileNotFoundError\<close> when it is missing, and write the artifact.
  The result is the files afterwards and the exception raised, if any.\<close>

definition ingest ::
  "(unit_id \<Rightarrow> 'r \<Rightarrow> 'p) \<Rightarrow> unit_id \<Rightarrow> bool \<Rightarrow> ('r, 'p) files \<Rightarrow> ('r, 'p) files \<times> error option" where
  "ingest to_parquet u force fs =
     (if bronze fs u \<noteq> None \<and> \<not> force then (fs, None)
      else (case raw fs u of
              None \<Rightarrow> (fs, Some (FileNotFoundError u))
            | Some d \<Rightarrow> (fs \<lparr> bronze := (bronze fs) (u \<mapsto> to_parquet u d) \<rparr>, None)))"

definition ingest_competitions ::
  "(unit_id \<Rightarrow> 'r \<Rightarrow> 'p) \<Rightarrow> bool \<Rightarrow> ('r, 'p) files \<Rightarrow> ('r, 'p) files \<times> error option" where
  "ingest_competitions to_parquet force = ingest to_parquet Competitions force"

definition ingest_matches ::
  "(unit_id \<Rightarrow> 'r \<Rightarrow> 'p) \<Rightarrow> int \<Rightarrow> int \<Rightarrow> bool \<Rightarrow> ('r, 'p) files \<Rightarrow> ('r, 'p) files \<times> error option" where
  "ingest_matches to_parquet competition_id season_id force =
     ingest to_parquet (Matches competition_id season_id) force"

definition ingest_events ::
  "(unit_id \<Rightarrow> 'r \<Rightarrow> 'p) \<Rightarrow> int \<Rightarrow> bool \<Rightarrow> ('r, 'p) files \<Rightarrow> ('r, 'p) files \<times> error option" where
  "ingest_events to_parquet match_id force = ingest to_parquet (Events match_id) force"

definition ingest_lineups ::
  "(unit_id \<Rightarrow> 'r \<Rightarrow> 'p) \<Rightarrow> int \<Rightarrow> bool \<Rightarrow> ('r, 'p) files \<Rightarrow> ('r, 'p) files \<times> error option" where
  "ingest_lineups to_parquet match_id force = ingest to_parquet (Lineups match_id) force"

text \<open>The inner loop of \<open>run\<close>: \<open>for mid in match_ids: ingest_events(mid); ingest_lineups(mid)\<close>.
  Nothing catches an exception, so the first one ends the loop.\<close>

fun ingest_match_units ::
  "(unit_id \<Rightarrow> 'r \<Rightarrow> 'p) \<Rightarrow> bool \<Rightarrow> int list \<Rightarrow> ('r, 'p) files \<Rightarrow> ('r, 'p) files \<times> error option" where
  "ingest_match_units to_parquet force [] fs = (fs, None)"
| "ingest_match_units to_parquet force (mid # rest) fs =
     (case ingest_events to_parquet mid force fs of
        (fs1, Some e) \<Rightarrow> (fs1, Some e)
      | (fs1, None) \<Rightarrow>
          (case ingest_lineups to_parquet mid force fs1 of
             (fs2, Some e) \<Rightarrow> (fs2, Some e)
           | (fs2, None) \<Rightarrow> ingest_match_units to_parquet force rest fs2))"

text \<open>The outer loop over the enabled competitions: ingest the match list, read the raw
  match file again for its match ids (\<open>match_ids\<close> extracts them), then the inner loop.\<close>

fun ingest_seasons ::
  "(unit_id \<Rightarrow> 'r \<Rightarrow> 'p) \<Rightarrow> ('r \<Rightarrow> int list) \<Rightarrow> bool \<Rightarrow> (int \<times> int) list \<Rightarrow> ('r, 'p) files
     \<Rightarrow> ('r, 'p) files \<times> error option" where
  "ingest_seasons to_parquet match_ids force [] fs = (fs, None)"
| "ingest_seasons to_parquet match_ids force ((cid, sid) # rest) fs =
     (case ingest_matches to_parquet cid sid force fs of
        (fs1, Some e) \<Rightarrow> (fs1, Some e)
      | (fs1, None) \<Rightarrow>
          (case raw fs1 (Matches cid sid) of
             None \<Rightarrow> (fs1, Some (FileNotFoundError (Matches cid sid)))
           | Some matches \<Rightarrow>
               (case ingest_match_units to_parquet force (match_ids matches) fs1 of
                  (fs2, Some e) \<Rightarrow> (fs2, Some e)
                | (fs2, None) \<Rightarrow> ingest_seasons to_parquet match_ids force rest fs2)))"

text \<open>\<open>run(force)\<close>; \<open>competitions\<close> are the enabled (competition, season) pairs of the
  configuration.\<close>

definition bronze_run ::
  "(unit_id \<Rightarrow> 'r \<Rightarrow> 'p) \<Rightarrow> ('r \<Rightarrow> int list) \<Rightarrow> bool \<Rightarrow> (int \<times> int) list \<Rightarrow> ('r, 'p) files
     \<Rightarrow> ('r, 'p) files \<times> error option" where
  "bronze_run to_parquet match_ids force competitions fs =
     (case ingest_competitions to_parquet force fs of
        (fs0, Some e) \<Rightarrow> (fs0, Some e)
      | (fs0, None) \<Rightarrow> ingest_seasons to_parquet match_ids force competitions fs0)"

section \<open>The shots table\<close>

text \<open>A row of \<open>fact_shots\<close> with the columns the later stages read (the end location,
  technique and key pass are left out). \<open>s_xg_model\<close> is the column the xG apply step
  adds: \<open>None\<close> when the table has no such column yet, or the cell is null.\<close>

record shot_row =
  s_event_id :: string
  s_match_id :: int
  s_player_id :: "int option"
  s_team_id :: "int option"
  s_period :: "int option"
  s_minute :: "int option"
  s_second :: "int option"
  s_location_x :: "real option"
  s_location_y :: "real option"
  s_xg :: "real option"
  s_outcome :: "string option"
  s_is_goal :: bool
  s_body_part :: "string option"
  s_shot_type :: "string option"
  s_is_first_time :: "bool option"
  s_under_pressure :: "bool option"
  s_xg_model :: "real option"

section \<open>xG model (scripts/xg_model.py, scripts/apply_xg_model.py)\<close>

definition GOAL_X :: real where "GOAL_X = 120"
definition GOAL_Y :: real where "GOAL_Y = 40"

text \<open>numpy's \<open>arctan2(y, x)\<close>.\<close>

definition arctan2 :: "real \<Rightarrow> real \<Rightarrow> real" where
  "arctan2 y x =
     (if x > 0 then arctan (y / x)
      else if x < 0 \<and> y \<ge> 0 then arctan (y / x) + pi
      else if x < 0 then arctan (y / x) - pi
      else if y > 0 then pi / 2
      else if y < 0 then - pi / 2
      else 0)"

text \<open>Arithmetic on a null coordinate gives a null (NaN) feature.\<close>

definition compute_distance :: "real option \<Rightarrow> real option \<Rightarrow> real option" where
  "compute_distance x y =
     (case (x, y) of
        (Some x, Some y) \<Rightarrow> Some (sqrt ((GOAL_X - x)\<^sup>2 + (GOAL_Y - y)\<^sup>2))
      | _ \<Rightarrow> None)"

definition compute_angle :: "real option \<Rightarrow> real option \<Rightarrow> real option" where
  "compute_angle x y =
     (case (x, y) of
        (Some x, Some y) \<Rightarrow>
          (let post_left_y = 36.34; post_right_y = 43.66;
               ax = GOAL_X - x; ay = post_left_y - y;
               bx = GOAL_X - x; by = post_right_y - y;
               cross = ax * by - ay * bx;
               dot = ax * bx + ay * by
           in Some (arctan2 \<bar>cross\<bar> dot))
      | _ \<Rightarrow> None)"

record features =
  distance :: "real option"
  angle :: "real option"
  distance_sq :: "real option"
  is_header :: int
  is_penalty :: int
  is_open_play :: int
  is_first_time :: int
  under_pressure :: int

definition as_int :: "bool \<Rightarrow> int" where
  "as_int b = (if b then 1 else 0)"

definition fillna_False :: "bool option \<Rightarrow> bool" where
  "fillna_False b = (case b of None \<Rightarrow> False | Some v \<Rightarrow> v)"

text \<open>\<open>build_features\<close>, row by row.\<close>

definition build_features :: "shot_row \<Rightarrow> features" where
  "build_features s =
     \<lparr> distance = compute_distance (s_location_x s) (s_location_y s),
       angle = compute_angle (s_location_x s) (s_location_y s),
       distance_sq = map_option (\<lambda>d. d\<^sup>2) (compute_distance (s_location_x s) (s_location_y s)),
       is_header = as_int (s_body_part s = Some ''Head''),
       is_penalty = as_int (s_shot_type s = Some ''Penalty''),
       is_open_play = as_int (s_shot_type s = Some ''Open Play''),
       is_first_time = as_int (fillna_False (s_is_first_time s)),
       under_pressure = as_int (fillna_False (s_under_pressure s)) \<rparr>"

text \<open>
  The apply step (\<open>main\<close> of apply_xg_model.py), in the order of its statements. The
  fitted pipeline is the parameter \<open>predict_proba\<close>, the probability of the goal class
  for a feature row.
  \<^item> \<open>df_valid\<close> holds the rows with both coordinates; its \<open>xg_model\<close> column is the
    model's output. Aligned on the index of \<open>df\<close>, a row outside \<open>df_valid\<close> has no value.
  \<^item> \<open>df.loc[df["shot_type"] == "Penalty", "xg_model"] = 0.76\<close> sets the penalties and
    creates the column, null elsewhere, when the frame did not have it.
  \<^item> \<open>df.update(df_valid[["xg_model"]])\<close> overwrites every cell for which \<open>df_valid\<close> has
    a non-null value.
  \<^item> \<open>fillna(0.0)\<close>.
\<close>

definition has_location :: "shot_row \<Rightarrow> bool" where
  "has_location s = (s_location_x s \<noteq> None \<and> s_location_y s \<noteq> None)"

definition update_cell :: "real option \<Rightarrow> real option \<Rightarrow> real option" where
  "update_cell old new = (case new of None \<Rightarrow> old | Some v \<Rightarrow> Some v)"

definition apply_xg_model :: "(features \<Rightarrow> real) \<Rightarrow> shot_row list \<Rightarrow> shot_row list" where
  "apply_xg_model predict_proba df =
     (let df_valid_xg = map (\<lambda>s. if has_location s then Some (predict_proba (build_features s))
                                  else None) df;
          penalties_set = map (\<lambda>s. if s_shot_type s = Some ''Penalty'' then Some (0.76 :: real)
                                    else s_xg_model s) df;
          updated = map2 update_cell penalties_set df_valid_xg;
          filled = map (\<lambda>v. case v of None \<Rightarrow> Some 0 | Some x \<Rightarrow> Some x) updated
      in map2 (\<lambda>s v. s \<lparr> s_xg_model := v \<rparr>) df filled)"

text \<open>A penalty as the data has it: taken from the spot, with its location recorded.\<close>

definition penalty_shot :: shot_row where
  "penalty_shot =
     \<lparr> s_event_id = ''p1'', s_match_id = 1, s_player_id = Some 9, s_team_id = Some 1,
       s_period = Some 1, s_minute = Some 30, s_second = Some 0,
       s_location_x = Some 108, s_location_y = Some 40, s_xg = Some 0.78,
       s_outcome = Some ''Goal'', s_is_goal = True, s_body_part = Some ''Right Foot'',
       s_shot_type = Some ''Penalty'', s_is_first_time = Some False,
       s_under_pressure = Some False, s_xg_model = None \<rparr>"

section \<open>Gold layer (pipeline/gold.py)\<close>

subsection \<open>The tables read and the SQL operators used\<close>

text \<open>Rows of \<open>fact_events\<close> and \<open>fact_carries\<close> with the columns the aggregations read.\<close>

record fact_event =
  fe_match_id :: int
  fe_type :: "string option"
  fe_player_id :: "int option"
  fe_player :: "string option"
  fe_team_id :: "int option"
  fe_team :: "string option"
  fe_location_x :: "real option"

record carry_row =
  c_match_id :: int
  c_player_id :: "int option"
  c_team_id :: "int option"
  c_location_x :: "real option"
  c_location_y :: "real option"
  c_end_location_x :: "real option"
  c_end_location_y :: "real option"

text \<open>\<open>a = b\<close> in a \<open>WHERE\<close> or \<open>ON\<close> clause: true only when both sides are non-null and
  equal. \<open>GROUP BY\<close> and \<open>DISTINCT\<close>, on the other hand, put nulls together, as HOL's
  equality on options does.\<close>

definition sql_eq :: "'a option \<Rightarrow> 'a option \<Rightarrow> bool" where
  "sql_eq a b = (case (a, b) of (Some x, Some y) \<Rightarrow> x = y | _ \<Rightarrow> False)"

text \<open>\<open>LEFT JOIN\<close>: every left row with each right row matching it, or once with nulls.\<close>

definition left_join :: "('a \<Rightarrow> 'b \<Rightarrow> bool) \<Rightarrow> 'a list \<Rightarrow> 'b list \<Rightarrow> ('a \<times> 'b option) list" where
  "left_join on ls rs =
     concat (map (\<lambda>l. case filter (on l) rs of
                          [] \<Rightarrow> [(l, None)]
                        | ms \<Rightarrow> map (\<lambda>r. (l, Some r)) ms) ls)"

text \<open>\<open>GROUP BY\<close>: the distinct keys, each with its rows.\<close>

definition group_by :: "('a \<Rightarrow> 'k) \<Rightarrow> 'a list \<Rightarrow> ('k \<times> 'a list) list" where
  "group_by key xs = map (\<lambda>k. (k, filter (\<lambda>r. key r = k) xs)) (remdups (map key xs))"

text \<open>\<open>SUM\<close> and \<open>AVG\<close> skip nulls and are null when nothing is left.\<close>

definition non_null :: "'a option list \<Rightarrow> 'a list" where
  "non_null vs = concat (map (\<lambda>v. case v of None \<Rightarrow> [] | Some x \<Rightarrow> [x]) vs)"

definition sql_sum :: "real option list \<Rightarrow> real option" where
  "sql_sum vs = (if non_null vs = [] then None else Some (sum_list (non_null vs)))"

definition sql_avg :: "real option list \<Rightarrow> real option" where
  "sql_avg vs =
     (if non_null vs = [] then None
      else Some (sum_list (non_null vs) / real (length (non_null vs))))"

text \<open>\<open>ROUND(x, n)\<close>, halves away from zero.\<close>

definition sql_round :: "real \<Rightarrow> nat \<Rightarrow> real" where
  "sql_round x n = sgn x * real_of_int \<lfloor>\<bar>x\<bar> * 10 ^ n + 1 / 2\<rfloor> / 10 ^ n"

text \<open>The two name lookups joined in: \<open>SELECT DISTINCT match_id, team_id, player_id, player\<close>
  and \<open>SELECT DISTINCT match_id, player_id, player\<close>, both
  \<open>FROM fact_events WHERE player_id IS NOT NULL\<close>; and
  \<open>SELECT DISTINCT match_id, team_id, team FROM fact_events\<close>.\<close>

definition team_player_names ::
  "fact_event list \<Rightarrow> (int \<times> int option \<times> int option \<times> string option) list" where
  "team_player_names events =
     remdups (map (\<lambda>e. (fe_match_id e, fe_team_id e, fe_player_id e, fe_player e))
                  (filter (\<lambda>e. fe_player_id e \<noteq> None) events))"

definition player_names :: "fact_event list \<Rightarrow> (int \<times> int option \<times> string option) list" where
  "player_names events =
     remdups (map (\<lambda>e. (fe_match_id e, fe_player_id e, fe_player e))
                  (filter (\<lambda>e. fe_player_id e \<noteq> None) events))"

definition team_names :: "fact_event list \<Rightarrow> (int \<times> int option \<times> string option) list" where
  "team_names events = remdups (map (\<lambda>e. (fe_match_id e, fe_team_id e, fe_team e)) events)"

subsection \<open>Pass network edges\<close>

record edge =
  e_match_id :: int
  e_team_id :: "int option"
  e_passer_id :: "int option"
  e_recipient_id :: "int option"
  e_passer_name :: "string option"
  e_recipient_name :: "string option"
  e_pass_count :: nat
  e_avg_start_x :: "real option"
  e_avg_start_y :: "real option"
  e_avg_end_x :: "real option"
  e_avg_end_y :: "real option"

text \<open>The rows of \<open>FROM fact_passes p LEFT JOIN ep ... LEFT JOIN er ...\<close>: a pass with the
  passer's and the recipient's name.\<close>

definition edge_joined ::
  "pass_row list \<Rightarrow> fact_event list \<Rightarrow> (pass_row \<times> string option \<times> string option) list" where
  "edge_joined passes events =
     map (\<lambda>((p, ep), er). (p, (case ep of None \<Rightarrow> None | Some (m, t, pl, name) \<Rightarrow> name),
                               (case er of None \<Rightarrow> None | Some (m, pl, name) \<Rightarrow> name)))
       (left_join (\<lambda>(p, ep) (m, pl, name). p_match_id p = m \<and> sql_eq (p_recipient_id p) pl)
          (left_join (\<lambda>p (m, t, pl, name).
                        p_match_id p = m \<and> sql_eq (p_team_id p) t \<and> sql_eq (p_player_id p) pl)
             passes (team_player_names events))
          (player_names events))"

definition edge_key ::
  "pass_row \<times> string option \<times> string option
     \<Rightarrow> int \<times> int option \<times> int option \<times> int option \<times> string option \<times> string option" where
  "edge_key = (\<lambda>(p, passer, recipient).
     (p_match_id p, p_team_id p, p_player_id p, p_recipient_id p, passer, recipient))"

text \<open>\<open>build_gold_pass_network_edges\<close>: \<open>WHERE\<close>, \<open>GROUP BY\<close>, the aggregates, \<open>HAVING\<close>.\<close>

definition build_gold_pass_network_edges :: "pass_row list \<Rightarrow> fact_event list \<Rightarrow> edge list" where
  "build_gold_pass_network_edges passes events =
     filter (\<lambda>e. e_pass_count e \<ge> 2)
       (map (\<lambda>((m, t, pl, rc, passer, recipient), g).
               \<lparr> e_match_id = m, e_team_id = t, e_passer_id = pl, e_recipient_id = rc,
                 e_passer_name = passer, e_recipient_name = recipient,
                 e_pass_count = length g,
                 e_avg_start_x = sql_avg (map (\<lambda>(p, a, b). p_location_x p) g),
                 e_avg_start_y = sql_avg (map (\<lambda>(p, a, b). p_location_y p) g),
                 e_avg_end_x = sql_avg (map (\<lambda>(p, a, b). p_end_location_x p) g),
                 e_avg_end_y = sql_avg (map (\<lambda>(p, a, b). p_end_location_y p) g) \<rparr>)
          (group_by edge_key
             (filter (\<lambda>(p, a, b). p_is_completed p = True \<and> p_recipient_id p \<noteq> None)
                (edge_joined passes events))))"

subsection \<open>Per-match team stats\<close>

record team_stats =
  ts_match_id :: int
  ts_team_id :: "int option"
  ts_team_name :: "string option"
  ts_total_shots :: nat
  ts_shots_on_target :: nat
  ts_goals :: nat
  ts_total_xg :: "real option"
  ts_total_passes :: nat
  ts_pass_completion_pct :: "real option"
  ts_total_carries :: nat
  ts_total_pressures :: nat

text \<open>The correlated subqueries, for the match and team of the group.\<close>

definition team_passes :: "pass_row list \<Rightarrow> int \<Rightarrow> int option \<Rightarrow> pass_row list" where
  "team_passes passes m t = filter (\<lambda>p. p_match_id p = m \<and> sql_eq (p_team_id p) t) passes"

definition pass_completion_pct :: "pass_row list \<Rightarrow> real option" where
  "pass_completion_pct ps =
     (if length ps = 0 then None
      else Some (sql_round (100 * real (length (filter p_is_completed ps)) / real (length ps)) 1))"

text \<open>\<open>build_gold_team_stats\<close>: the rows come \<open>FROM fact_shots s LEFT JOIN\<close> the team names,
  grouped by the shot's match, the shot's team and the team name.\<close>

definition build_gold_team_stats ::
  "shot_row list \<Rightarrow> pass_row list \<Rightarrow> carry_row list \<Rightarrow> fact_event list \<Rightarrow> team_stats list" where
  "build_gold_team_stats shots passes carries events =
     map (\<lambda>((m, t, name), g).
            \<lparr> ts_match_id = m, ts_team_id = t, ts_team_name = name,
              ts_total_shots = length g,
              ts_shots_on_target =
                length (filter (\<lambda>(s, e). s_outcome s = Some ''Saved'' \<or> s_outcome s = Some ''Goal'') g),
              ts_goals = length (filter (\<lambda>(s, e). s_is_goal s) g),
              ts_total_xg = map_option (\<lambda>x. sql_round x 3) (sql_sum (map (\<lambda>(s, e). s_xg s) g)),
              ts_total_passes = length (team_passes passes m t),
              ts_pass_completion_pct = pass_completion_pct (team_passes passes m t),
              ts_total_carries =
                length (filter (\<lambda>c. c_match_id c = m \<and> sql_eq (c_team_id c) t) carries),
              ts_total_pressures =
                length (filter (\<lambda>ev. fe_match_id ev = m \<and> sql_eq (fe_team_id ev) t \<and>
                                      sql_eq (fe_type ev) (Some ''Pressure'')) events) \<rparr>)
       (group_by (\<lambda>(s, e). (s_match_id s, s_team_id s,
                             (case e of None \<Rightarrow> None | Some (m, t, name) \<Rightarrow> name)))
          (left_join (\<lambda>s (m, t, name). s_match_id s = m \<and> sql_eq (s_team_id s) t)
             shots (team_names events)))"

subsection \<open>xG timeline\<close>

record timeline_row =
  t_match_id :: int
  t_team_id :: "int option"
  t_team_name :: "string option"
  t_period :: "int option"
  t_minute :: "int option"
  t_second :: "int option"
  t_xg :: "real option"
  t_is_goal :: bool
  t_outcome :: "string option"
  t_cumulative_xg :: "real option"

text \<open>\<open>ORDER BY\<close> is ascending with nulls last; rows that tie keep the order they came
  in (the sorts are stable).\<close>

definition nulls_last :: "int option \<Rightarrow> bool \<times> int" where
  "nulls_last v = (case v of None \<Rightarrow> (True, 0) | Some x \<Rightarrow> (False, x))"

definition shot_order_key :: "shot_row \<Rightarrow> (bool \<times> int) \<times> (bool \<times> int) \<times> (bool \<times> int)" where
  "shot_order_key s = (nulls_last (s_period s), nulls_last (s_minute s), nulls_last (s_second s))"

definition timeline_order_key ::
  "timeline_row \<Rightarrow> (bool \<times> int) \<times> (bool \<times> int) \<times> (bool \<times> int)" where
  "timeline_order_key r =
     (nulls_last (t_period r), nulls_last (t_minute r), nulls_last (t_second r))"

text \<open>\<open>SUM(xg) OVER (... ROWS BETWEEN UNBOUNDED PRECEDING AND CURRENT ROW)\<close> along an
  ordered partition: the sum of the non-null values so far, null while there is none.\<close>

fun running_sum :: "real option \<Rightarrow> real option list \<Rightarrow> real option list" where
  "running_sum acc [] = []"
| "running_sum acc (v # vs) =
     (let acc' = (case v of None \<Rightarrow> acc
                  | Some x \<Rightarrow> Some (case acc of None \<Rightarrow> x | Some a \<Rightarrow> a + x))
      in acc' # running_sum acc' vs)"

definition window_partition :: "(shot_row \<times> string option) list \<Rightarrow> timeline_row list" where
  "window_partition part =
     (let ordered = sort_key (\<lambda>(s, name). shot_order_key s) part
      in map2 (\<lambda>(s, name) c.
                 \<lparr> t_match_id = s_match_id s, t_team_id = s_team_id s, t_team_name = name,
                   t_period = s_period s, t_minute = s_minute s, t_second = s_second s,
                   t_xg = s_xg s, t_is_goal = s_is_goal s, t_outcome = s_outcome s,
                   t_cumulative_xg = c \<rparr>)
           ordered (running_sum None (map (\<lambda>(s, name). s_xg s) ordered)))"

text \<open>\<open>build_gold_xg_timeline\<close>: the shots left-joined with the team names, the window
  sum per (match, team) partition, the final \<open>ORDER BY\<close>.\<close>

definition build_gold_xg_timeline :: "shot_row list \<Rightarrow> fact_event list \<Rightarrow> timeline_row list" where
  "build_gold_xg_timeline shots events =
     (let joined = map (\<lambda>(s, e). (s, (case e of None \<Rightarrow> None | Some (m, t, name) \<Rightarrow> name)))
                     (left_join (\<lambda>s (m, t, name). s_match_id s = m \<and> sql_eq (s_team_id s) t)
                        shots (team_names events));
          windowed = concat (map (\<lambda>(k, part). window_partition part)
                               (group_by (\<lambda>(s, name). (s_match_id s, s_team_id s)) joined))
      in sort_key (\<lambda>r. (t_match_id r, nulls_last (t_team_id r), timeline_order_key r)) windowed)"

text \<open>The rows of one (match, team) partition of the timeline, in the table's order.\<close>

definition timeline_partition :: "timeline_row list \<Rightarrow> int \<Rightarrow> int option \<Rightarrow> timeline_row list" where
  "timeline_partition timeline m t = filter (\<lambda>r. t_match_id r = m \<and> t_team_id r = t) timeline"

text \<open>The order of cumulative values: a null sum (no xG counted yet) is below every
  value, and values compare as reals.\<close>

definition cumulative_le :: "real option \<Rightarrow> real option \<Rightarrow> bool" where
  "cumulative_le a b =
     (case a of None \<Rightarrow> True | Some x \<Rightarrow> (case b of None \<Rightarrow> False | Some y \<Rightarrow> x \<le> y))"

text \<open>xG is a probability: every xG value the shots table holds is null or in [0, 1].\<close>

definition xg_are_probabilities :: "shot_row list \<Rightarrow> bool" where
  "xg_are_probabilities shots =
     list_all (\<lambda>s. case s_xg s of None \<Rightarrow> True | Some x \<Rightarrow> 0 \<le> x \<and> x \<le> 1) shots"

section \<open>PPDA (scripts/ppda.py)\<close>

definition PRESS_ZONE_X :: real where "PRESS_ZONE_X = 48"

text \<open>\<open>SELECT match_id, team_id, team, COUNT(*) FROM fact_events WHERE type ... AND
  location_x > ? GROUP BY match_id, team_id, team\<close>, for the passes and for the
  defensive actions. A group exists only for a key with at least one row.\<close>

definition in_press_zone :: "fact_event \<Rightarrow> bool" where
  "in_press_zone e = (case fe_location_x e of None \<Rightarrow> False | Some x \<Rightarrow> x > PRESS_ZONE_X)"

definition zone_counts ::
  "string list \<Rightarrow> fact_event list \<Rightarrow> ((int \<times> int option \<times> string option) \<times> nat) list" where
  "zone_counts types events =
     map (\<lambda>(k, g). (k, length g))
       (group_by (\<lambda>e. (fe_match_id e, fe_team_id e, fe_team e))
          (filter (\<lambda>e. (case fe_type e of None \<Rightarrow> False | Some ty \<Rightarrow> ty \<in> set types) \<and>
                         in_press_zone e) events))"

definition passes_in_zone ::
  "fact_event list \<Rightarrow> ((int \<times> int option \<times> string option) \<times> nat) list" where
  "passes_in_zone events = zone_counts [''Pass''] events"

definition def_actions ::
  "fact_event list \<Rightarrow> ((int \<times> int option \<times> string option) \<times> nat) list" where
  "def_actions events =
     zone_counts [''Tackle'', ''Interception'', ''Foul Committed'', ''Ball Recovery''] events"

text \<open>\<open>SELECT DISTINCT match_id, team_id, team FROM fact_events WHERE team IS NOT NULL\<close>.\<close>

definition match_teams :: "fact_event list \<Rightarrow> (int \<times> int option \<times> string option) list" where
  "match_teams events =
     remdups (map (\<lambda>e. (fe_match_id e, fe_team_id e, fe_team e))
                  (filter (\<lambda>e. fe_team e \<noteq> None) events))"

text \<open>In the frames a null team id is NaN: \<open>!=\<close> holds whenever a side is NaN, while
  \<open>merge\<close> matches a NaN key with a NaN key, as HOL's equality on options does.\<close>

definition pandas_ne :: "int option \<Rightarrow> int option \<Rightarrow> bool" where
  "pandas_ne a b = (a = None \<or> b = None \<or> a \<noteq> b)"

text \<open>\<open>Series.round(n)\<close>: to the nearest multiple of \<open>10^-n\<close>, a half to the even one.\<close>

definition np_round :: "real \<Rightarrow> nat \<Rightarrow> real" where
  "np_round x n =
     (let y = x * 10 ^ n; f = \<lfloor>y\<rfloor>; d = y - real_of_int f
      in real_of_int (if d < 1 / 2 then f else if d > 1 / 2 then f + 1
                      else if even f then f else f + 1) / 10 ^ n)"

record ppda_row =
  pm_match_id :: int
  pm_team_id :: "int option"
  pm_team :: "string option"
  pm_opp_passes_in_zone :: real
  pm_def_actions :: real
  pm_ppda :: real

text \<open>\<open>ppda_match\<close> of \<open>main\<close> (the first query of \<open>main\<close>, \<open>opp_passes\<close>, is never read
  again and is left out): the teams of a match paired with each other, the passes of
  the opponent and the team's own defensive actions attached by left merges,
  \<open>fillna(0)\<close> for the passes, \<open>fillna(1)\<close> for the defensive actions, the rounded ratio.\<close>

definition ppda_match :: "fact_event list \<Rightarrow> ppda_row list" where
  "ppda_match events =
     (let pairs = filter (\<lambda>((m, t, n), (m', ot, on)). pandas_ne t ot)
                    (concat (map (\<lambda>l. map (\<lambda>r. (l, r))
                                          (filter (\<lambda>r. fst r = fst l) (match_teams events)))
                                 (match_teams events)));
          with_passes = left_join (\<lambda>((m, t, n), (m', ot, on)) ((pm, pt, pn), c). pm = m \<and> pt = ot)
                          pairs (passes_in_zone events);
          with_actions = left_join (\<lambda>(((m, t, n), opp), p) ((dm, dt, dn), c). dm = m \<and> dt = t)
                           with_passes (def_actions events)
      in map (\<lambda>((((m, t, n), opp), p), d).
                \<lparr> pm_match_id = m, pm_team_id = t, pm_team = n,
                  pm_opp_passes_in_zone = (case p of None \<Rightarrow> 0 | Some (k, c) \<Rightarrow> real c),
                  pm_def_actions = (case d of None \<Rightarrow> 1 | Some (k, c) \<Rightarrow> real c),
                  pm_ppda = np_round ((case p of None \<Rightarrow> 0 | Some (k, c) \<Rightarrow> real c) /
                                      (case d of None \<Rightarrow> 1 | Some (k, c) \<Rightarrow> real c)) 2 \<rparr>)
           with_actions)"

text \<open>Whether the events hold a defensive action of the team in the press zone.\<close>

definition has_def_action :: "fact_event list \<Rightarrow> int \<Rightarrow> int option \<Rightarrow> bool" where
  "has_def_action events m t =
     (filter (\<lambda>e. fe_match_id e = m \<and> fe_team_id e = t \<and> in_press_zone e \<and>
                   (case fe_type e of None \<Rightarrow> False
                    | Some ty \<Rightarrow> ty \<in> set [''Tackle'', ''Interception'', ''Foul Committed'',
                                            ''Ball Recovery''])) events \<noteq> [])"

section \<open>xT model (scripts/xt_model.py)\<close>

definition GRID_X :: nat where "GRID_X = 16"
definition GRID_Y :: nat where "GRID_Y = 12"
definition PITCH_X :: real where "PITCH_X = 120"
definition PITCH_Y :: real where "PITCH_Y = 80"
definition ITERS :: nat where "ITERS = 10"

text \<open>One coordinate of \<open>to_grid\<close>: \<open>(v / pitch * n).clip(0, n - 1).astype(int)\<close>. The cast
  truncates, which on the clipped, non-negative value is the floor.\<close>

definition grid_cell :: "real \<Rightarrow> real \<Rightarrow> nat \<Rightarrow> nat" where
  "grid_cell v pitch n = nat \<lfloor>min (real n - 1) (max 0 (v / pitch * real n))\<rfloor>"

text \<open>\<open>to_grid\<close> on two columns of one frame: the columns and rows of the cells. The cast
  of a column that holds a null raises.\<close>

definition to_grid :: "real option list \<Rightarrow> real option list \<Rightarrow> error + (nat list \<times> nat list)" where
  "to_grid x y =
     (if None \<in> set x \<or> None \<in> set y then Inl IntCastingNaNError
      else Inr (map (\<lambda>v. grid_cell v PITCH_X GRID_X) (non_null x),
                map (\<lambda>v. grid_cell v PITCH_Y GRID_Y) (non_null y)))"

definition zone_index :: "nat \<Rightarrow> nat \<Rightarrow> nat" where
  "zone_index c r = r * GRID_X + c"

text \<open>
  An array of shape \<open>(GRID_Y, GRID_X)\<close> is modelled by its values at the flat index
  \<open>row * GRID_X + col\<close>, which is where \<open>flatten\<close> and \<open>reshape\<close> put the cell
  \<open>(row, col)\<close>; the matrix \<open>T\<close> by its values at two such indices. Floats are reals.
  \<open>np.add.at(zeros, index, 1)\<close> counts how often each index occurs.
\<close>

definition n_zones :: nat where "n_zones = GRID_Y * GRID_X"

definition add_at :: "'a list \<Rightarrow> 'a \<Rightarrow> real" where
  "add_at idx z = real (count_list idx z)"

text \<open>\<open>row_sums = T.sum(axis=1); row_sums[row_sums == 0] = 1; T = T / row_sums\<close>.\<close>

definition normalise_rows :: "(nat \<Rightarrow> nat \<Rightarrow> real) \<Rightarrow> nat \<Rightarrow> nat \<Rightarrow> real" where
  "normalise_rows T z z' =
     (let row_sum = (\<Sum>k < n_zones. T z k)
      in T z z' / (if row_sum = 0 then 1 else row_sum))"

text \<open>What \<open>build_xt_grid\<close> computes before it iterates.\<close>

record grids =
  p_shot :: "nat \<Rightarrow> real"
  p_move :: "nat \<Rightarrow> real"
  p_goal_given_shot :: "nat \<Rightarrow> real"
  transition :: "nat \<Rightarrow> nat \<Rightarrow> real"

text \<open>\<open>all_moves\<close>: the completed passes, then the carries, with start and end location.\<close>

definition all_moves ::
  "pass_row list \<Rightarrow> carry_row list
     \<Rightarrow> (real option \<times> real option \<times> real option \<times> real option) list" where
  "all_moves passes carries =
     map (\<lambda>p. (p_location_x p, p_location_y p, p_end_location_x p, p_end_location_y p))
         (filter p_is_completed passes) @
     map (\<lambda>c. (c_location_x c, c_location_y c, c_end_location_x c, c_end_location_y c)) carries"

definition xt_grids :: "pass_row list \<Rightarrow> carry_row list \<Rightarrow> shot_row list \<Rightarrow> error + grids" where
  "xt_grids passes carries shots =
     (let completed_passes = filter p_is_completed passes;
          goal_shots = filter (\<lambda>s. s_is_goal s = True) shots;
          moves = all_moves passes carries
      in case to_grid (map s_location_x shots) (map s_location_y shots) of
           Inl e \<Rightarrow> Inl e
         | Inr (shot_col, shot_row) \<Rightarrow>
       (case to_grid (map p_location_x completed_passes) (map p_location_y completed_passes) of
           Inl e \<Rightarrow> Inl e
         | Inr (pass_col, pass_row) \<Rightarrow>
       (case to_grid (map c_location_x carries) (map c_location_y carries) of
           Inl e \<Rightarrow> Inl e
         | Inr (carry_col, carry_row) \<Rightarrow>
       (case to_grid (map s_location_x goal_shots) (map s_location_y goal_shots) of
           Inl e \<Rightarrow> Inl e
         | Inr (goal_col, goal_row) \<Rightarrow>
       (case to_grid (map (\<lambda>(x, y, ex, ey). x) moves) (map (\<lambda>(x, y, ex, ey). y) moves) of
           Inl e \<Rightarrow> Inl e
         | Inr (start_col, start_row) \<Rightarrow>
       (case to_grid (map (\<lambda>(x, y, ex, ey). ex) moves) (map (\<lambda>(x, y, ex, ey). ey) moves) of
           Inl e \<Rightarrow> Inl e
         | Inr (end_col, end_row) \<Rightarrow>
           (let shot_counts = add_at (map2 zone_index shot_col shot_row);
                move_counts = (\<lambda>z. add_at (map2 zone_index pass_col pass_row) z +
                                     add_at (map2 zone_index carry_col carry_row) z);
                total_counts = (\<lambda>z. shot_counts z + move_counts z + 1 / 10 ^ 6);
                goal_counts = add_at (map2 zone_index goal_col goal_row);
                start_idx = map2 zone_index start_col start_row;
                end_idx = map2 zone_index end_col end_row
            in Inr \<lparr> p_shot = (\<lambda>z. shot_counts z / total_counts z),
                     p_move = (\<lambda>z. move_counts z / total_counts z),
                     p_goal_given_shot = (\<lambda>z. goal_counts z / (shot_counts z + 1 / 10 ^ 6)),
                     transition = normalise_rows (\<lambda>z z'. add_at (zip start_idx end_idx) (z, z'))
                   \<rparr>)))))))"

text \<open>The loop \<open>for i in range(ITERS)\<close> after \<open>n\<close> rounds, from \<open>xT = np.zeros(...)\<close>:
  \<open>xT_new = p_shot * p_goal_given_shot + p_move * (T @ xT_flat).reshape(...)\<close>.
  The loop has no exit but the count.\<close>

fun value_iteration :: "nat \<Rightarrow> grids \<Rightarrow> nat \<Rightarrow> real" where
  "value_iteration 0 g = (\<lambda>z. 0)"
| "value_iteration (Suc n) g =
     (\<lambda>z. p_shot g z * p_goal_given_shot g z +
          p_move g z * (\<Sum>z' < n_zones. transition g z z' * value_iteration n g z'))"

text \<open>\<open>build_xt_grid\<close> returns the grid and the transition matrix.\<close>

definition build_xt_grid ::
  "pass_row list \<Rightarrow> carry_row list \<Rightarrow> shot_row list
     \<Rightarrow> error + ((nat \<Rightarrow> real) \<times> (nat \<Rightarrow> nat \<Rightarrow> real))" where
  "build_xt_grid passes carries shots =
     (case xt_grids passes carries shots of
        Inl e \<Rightarrow> Inl e
      | Inr g \<Rightarrow> Inr (value_iteration ITERS g, transition g))"

text \<open>The recorded departures of a zone: the moves (completed passes and carries) whose
  start location falls into it.\<close>

definition zone_of :: "real option \<Rightarrow> real option \<Rightarrow> nat option" where
  "zone_of x y =
     (case (x, y) of
        (Some a, Some b) \<Rightarrow> Some (zone_index (grid_cell a PITCH_X GRID_X) (grid_cell b PITCH_Y GRID_Y))
      | _ \<Rightarrow> None)"

definition departures :: "pass_row list \<Rightarrow> carry_row list \<Rightarrow> nat \<Rightarrow> nat" where
  "departures passes carries z =
     length (filter (\<lambda>(x, y, ex, ey). zone_of x y = Some z) (all_moves passes carries))"

section \<open>Example inputs\<close>

text \<open>Three events of one match: a pass with no outcome, an incomplete pass, a shot.\<close>

definition example_pass :: event where
  "example_pass =
     \<lparr> ev_id = ''a'', ev_match_id = 1, ev_type = Some ''Pass'', ev_player_id = Some 7,
       ev_team_id = Some 1, ev_period = Some 1, ev_minute = Some 0, ev_second = Some 5,
       ev_location = PyList [Some (Fin 60), Some (Fin 40)],
       ev_pass_end_location = PyList [Some (Fin 70), Some (Fin 45)],
       ev_pass_outcome = None, ev_pass_type = None, ev_pass_recipient_id = Some 8 \<rparr>"

definition example_events :: events_frame where
  "example_events =
     \<lparr> columns = [''id'', ''match_id'', ''type'', ''period'', ''minute'', ''second'',
          ''location'', ''pass_end_location'', ''pass_outcome'', ''player_id'', ''team_id''],
       rows = [example_pass,
               example_pass \<lparr> ev_id := ''b'', ev_pass_outcome := Some ''Incomplete'' \<rparr>,
               example_pass \<lparr> ev_id := ''c'', ev_type := Some ''Shot'' \<rparr>] \<rparr>"

text \<open>Builders of which the second, \<open>dim_match\<close>, raises while it computes its frame;
  every other frame is \<open>1\<close> and is created without error.\<close>

definition failing_builders :: "(unit, nat) builders" where
  "failing_builders =
     \<lparr> from_bronze = (\<lambda>t. if t = dim_match then Inl (Raised ''dim_match'') else Inr 1),
       read_events = Inr (),
       from_events = (\<lambda>t ev. Inr 1),
       creation_error = (\<lambda>df. None) \<rparr>"

text \<open>Builders of which the second, \<open>dim_match\<close>, computes the frame \<open>2\<close>, which DuckDB
  refuses to create; every other frame is \<open>1\<close>.\<close>

definition create_failing_builders :: "(unit, nat) builders" where
  "create_failing_builders =
     \<lparr> from_bronze = (\<lambda>t. if t = dim_match then Inr 2 else Inr 1),
       read_events = Inr (),
       from_events = (\<lambda>t ev. Inr 1),
       creation_error = (\<lambda>df. if df = 2 then Some (Raised ''create dim_match'') else None) \<rparr>"

text \<open>One season with the matches 1 and 2; the raw events of match 1 are missing, every
  other source exists. A raw document is modelled by the match ids it lists.\<close>

definition two_matches :: "(int list, int list) files" where
  "two_matches =
     \<lparr> raw = [Competitions \<mapsto> [], Matches 43 106 \<mapsto> [1, 2], Events 2 \<mapsto> [],
              Lineups 1 \<mapsto> [], Lineups 2 \<mapsto> []],
       bronze = Map.empty \<rparr>"

text \<open>One match between the teams 1 and 2, as the tables hold it: player 7 of team 1
  passes three times to player 8, twice completed; player 3 of team 2 completes one
  pass; team 1 takes the only shot, a goal worth 0.45.\<close>

definition gold_pass :: pass_row where
  "gold_pass =
     \<lparr> p_event_id = ''a'', p_match_id = 1, p_player_id = Some 7, p_team_id = Some 1,
       p_period = Some 1, p_minute = Some 0, p_second = Some 5,
       p_location_x = Some 60, p_location_y = Some 40,
       p_end_location_x = Some 70, p_end_location_y = Some 45,
       p_outcome = None, p_is_completed = True, p_pass_type = None,
       p_recipient_id = Some 8 \<rparr>"

definition gold_passes :: "pass_row list" where
  "gold_passes =
     [gold_pass,
      gold_pass \<lparr> p_event_id := ''b'' \<rparr>,
      gold_pass \<lparr> p_event_id := ''c'', p_outcome := Some ''Incomplete'', p_is_completed := False \<rparr>,
      gold_pass \<lparr> p_event_id := ''d'', p_player_id := Some 3, p_team_id := Some 2,
                  p_recipient_id := Some 4 \<rparr>]"

definition gold_event :: fact_event where
  "gold_event =
     \<lparr> fe_match_id = 1, fe_type = Some ''Pass'', fe_player_id = Some 7,
       fe_player = Some ''Seven'', fe_team_id = Some 1, fe_team = Some ''Home'',
       fe_location_x = Some 60 \<rparr>"

definition gold_events :: "fact_event list" where
  "gold_events =
     [gold_event,
      gold_event \<lparr> fe_player_id := Some 8, fe_player := Some ''Eight'' \<rparr>,
      gold_event \<lparr> fe_player_id := Some 3, fe_player := Some ''Three'', fe_team_id := Some 2,
                   fe_team := Some ''Away'' \<rparr>,
      gold_event \<lparr> fe_type := Some ''Shot'', fe_location_x := Some 110 \<rparr>]"

definition gold_shot :: shot_row where
  "gold_shot =
     \<lparr> s_event_id = ''s'', s_match_id = 1, s_player_id = Some 7, s_team_id = Some 1,
       s_period = Some 1, s_minute = Some 10, s_second = Some 0,
       s_location_x = Some 110, s_location_y = Some 40, s_xg = Some 0.45,
       s_outcome = Some ''Goal'', s_is_goal = True, s_body_part = Some ''Right Foot'',
       s_shot_type = Some ''Open Play'', s_is_first_time = Some False,
       s_under_pressure = Some False, s_xg_model = None \<rparr>"

text \<open>Two shots of team 1, ten minutes apart, worth 0.45 and 0.3.\<close>

definition two_shots :: "shot_row list" where
  "two_shots = [gold_shot, gold_shot \<lparr> s_event_id := ''s2'', s_minute := Some 20, s_xg := Some 0.3 \<rparr>]"

text \<open>A carry from (10, 10), which lies in zone 17, to (110, 40).\<close>

definition example_carry :: carry_row where
  "example_carry =
     \<lparr> c_match_id = 1, c_player_id = Some 7, c_team_id = Some 1,
       c_location_x = Some 10, c_location_y = Some 10,
       c_end_location_x = Some 110, c_end_location_y = Some 40 \<rparr>"

section \<open>Properties\<close>

subsection \<open>Location unpacking\<close>

lemma extract_length: "length (extract_value v) = 3"
  by (cases v) auto

lemma unpack_xy:
  "i < length s \<Longrightarrow> xy_at (unpack_location s) i = (extract_value (s ! i) ! 0, extract_value (s ! i) ! 1)"
  by (simp add: unpack_location_def xy_at_def Let_def)

lemma unpack_z_kept:
  "(col_z (unpack_location s) \<noteq> None) = (\<exists>v \<in> set s. \<not> isna (extract_value v ! 2))"
  by (auto simp: unpack_location_def Let_def list_all_iff)

lemma third_not_null:
  "(\<not> isna (extract_value v ! 2)) = (\<exists>arr. v = PyList arr \<and> 2 < length arr \<and> \<not> isna (arr ! 2))"
  by (cases v) (auto simp: elem_at_def)

text \<open>
  C6. For every value of the unpacked series: a 2-element list \<open>[x, y]\<close> gives the row
  \<open>(x, y)\<close>; \<open>None\<close>, NaN or the empty list gives \<open>(None, None)\<close>; a 1-element list
  \<open>[x]\<close> gives \<open>(x, None)\<close>; a 3-element list gives its first two elements, the third
  being absent from the pair. The frame keeps a z column exactly when some value of the
  whole series is a list with a non-null third element.
\<close>

theorem unpack_location_rows:
  "(\<forall>i < length s.
      (\<forall>x y. s ! i = PyList [x, y] \<longrightarrow> xy_at (unpack_location s) i = (x, y)) \<and>
      (s ! i = PyNone \<or> s ! i = PyFloat NaN \<or> s ! i = PyList [] \<longrightarrow>
         xy_at (unpack_location s) i = (None, None)) \<and>
      (\<forall>x. s ! i = PyList [x] \<longrightarrow> xy_at (unpack_location s) i = (x, None)) \<and>
      (\<forall>x y z. s ! i = PyList [x, y, z] \<longrightarrow> xy_at (unpack_location s) i = (x, y))) \<and>
   length (col_x (unpack_location s)) = length s \<and>
   length (col_y (unpack_location s)) = length s \<and>
   (col_z (unpack_location s) \<noteq> None) =
     (\<exists>arr. PyList arr \<in> set s \<and> 2 < length arr \<and> \<not> isna (arr ! 2))"
proof -
  have rows: "\<forall>i < length s.
      (\<forall>x y. s ! i = PyList [x, y] \<longrightarrow> xy_at (unpack_location s) i = (x, y)) \<and>
      (s ! i = PyNone \<or> s ! i = PyFloat NaN \<or> s ! i = PyList [] \<longrightarrow>
         xy_at (unpack_location s) i = (None, None)) \<and>
      (\<forall>x. s ! i = PyList [x] \<longrightarrow> xy_at (unpack_location s) i = (x, None)) \<and>
      (\<forall>x y z. s ! i = PyList [x, y, z] \<longrightarrow> xy_at (unpack_location s) i = (x, y))"
    by (auto simp: unpack_xy elem_at_def)
  have lens: "length (col_x (unpack_location s)) = length s"
             "length (col_y (unpack_location s)) = length s"
    by (simp_all add: unpack_location_def Let_def)
  have "(col_z (unpack_location s) \<noteq> None) =
     (\<exists>arr. PyList arr \<in> set s \<and> 2 < length arr \<and> \<not> isna (arr ! 2))"
    unfolding unpack_z_kept by (auto simp: third_not_null)
  with rows lens show ?thesis by blast
qed

theorem unpack_location_rows_witness:
  "xy_at (unpack_location [PyList [Some (Fin 60), Some (Fin 40)], PyNone,
       PyList [Some (Fin 120), Some (Fin 36), Some (Fin 1.5)], PyList [Some (Fin 50)]]) 0
     = (Some (Fin 60), Some (Fin 40)) \<and>
   xy_at (unpack_location [PyList [Some (Fin 60), Some (Fin 40)], PyNone,
       PyList [Some (Fin 120), Some (Fin 36), Some (Fin 1.5)], PyList [Some (Fin 50)]]) 1
     = (None, None) \<and>
   xy_at (unpack_location [PyList [Some (Fin 60), Some (Fin 40)], PyNone,
       PyList [Some (Fin 120), Some (Fin 36), Some (Fin 1.5)], PyList [Some (Fin 50)]]) 2
     = (Some (Fin 120), Some (Fin 36)) \<and>
   xy_at (unpack_location [PyList [Some (Fin 60), Some (Fin 40)], PyNone,
       PyList [Some (Fin 120), Some (Fin 36), Some (Fin 1.5)], PyList [Some (Fin 50)]]) 3
     = (Some (Fin 50), None) \<and>
   col_z (unpack_location [PyList [Some (Fin 60), Some (Fin 40)], PyNone,
       PyList [Some (Fin 120), Some (Fin 36), Some (Fin 1.5)], PyList [Some (Fin 50)]]) \<noteq> None"
proof -
  let ?s = "[PyList [Some (Fin 60), Some (Fin 40)], PyNone,
       PyList [Some (Fin 120), Some (Fin 36), Some (Fin 1.5)], PyList [Some (Fin 50)]]"
  have ex: "\<exists>arr. PyList arr \<in> set ?s \<and> 2 < length arr \<and> \<not> isna (arr ! 2)"
    by (rule exI [of _ "[Some (Fin 120), Some (Fin 36), Some (Fin 1.5)]"]) simp
  note t = unpack_location_rows [of ?s]
  from t have r: "\<forall>i < length ?s.
      (\<forall>x y. ?s ! i = PyList [x, y] \<longrightarrow> xy_at (unpack_location ?s) i = (x, y)) \<and>
      (?s ! i = PyNone \<or> ?s ! i = PyFloat NaN \<or> ?s ! i = PyList [] \<longrightarrow>
         xy_at (unpack_location ?s) i = (None, None)) \<and>
      (\<forall>x. ?s ! i = PyList [x] \<longrightarrow> xy_at (unpack_location ?s) i = (x, None)) \<and>
      (\<forall>x y z. ?s ! i = PyList [x, y, z] \<longrightarrow> xy_at (unpack_location ?s) i = (x, y))"
    by blast
  from t ex have z: "col_z (unpack_location ?s) \<noteq> None" by blast
  have r0: "xy_at (unpack_location ?s) 0 = (Some (Fin 60), Some (Fin 40))"
    using r [rule_format, of 0] by simp
  have r1: "xy_at (unpack_location ?s) 1 = (None, None)"
    using r [rule_format, of 1] by simp
  have r2: "xy_at (unpack_location ?s) 2 = (Some (Fin 120), Some (Fin 36))"
    using r [rule_format, of 2] by simp
  have r3: "xy_at (unpack_location ?s) 3 = (Some (Fin 50), None)"
    using r [rule_format, of 3] by simp
  from r0 r1 r2 r3 z show ?thesis by blast
qed

subsection \<open>Pass completion\<close>

lemma find_None_iff_all: "(find P xs = None) = (\<forall>x \<in> set xs. \<not> P x)"
  by (induction xs) auto

text \<open>
  C4. Every row of the passes table built by the Silver stage has \<open>is_completed\<close> true
  exactly when its outcome is null; the table has one row per event of type Pass.
\<close>

theorem pass_completed_iff_no_outcome:
  "build_fact_passes df = Inr out \<Longrightarrow>
     (\<forall>p \<in> set out. p_is_completed p = (p_outcome p = None)) \<and>
     length out = length (filter (\<lambda>e. ev_type e = Some ''Pass'') (rows df))"
  by (auto simp: build_fact_passes_def Let_def split: option.splits)


theorem pass_completed_iff_no_outcome_witness:
  "\<exists>out. build_fact_passes example_events = Inr out \<and> length out = 2 \<and>
     list_all (\<lambda>p. p_is_completed p = (p_outcome p = None)) out \<and>
     map p_outcome out = [None, Some ''Incomplete'']"
proof -
  have h: "\<exists>out. build_fact_passes example_events = Inr out \<and>
      map p_outcome out = [None, Some ''Incomplete'']"
    by (simp add: build_fact_passes_def example_events_def example_pass_def Let_def col_def
        upt_rec unpack_location_def)
  then obtain out where o: "build_fact_passes example_events = Inr out"
      "map p_outcome out = [None, Some ''Incomplete'']" by (elim exE conjE)
  from pass_completed_iff_no_outcome [OF o(1)]
  have a: "list_all (\<lambda>p. p_is_completed p = (p_outcome p = None)) out"
    by (simp add: list_all_iff)
  from pass_completed_iff_no_outcome [OF o(1)]
  have b: "length out = 2"
    by (simp add: example_events_def example_pass_def)
  show ?thesis
    by (rule exI [of _ out]) (intro conjI o a b)
qed

subsection \<open>The Silver stage is not atomic\<close>

lemma tables_of_append: "tables_of (xs @ ys) = tables_of xs @ tables_of ys"
  by (induction xs rule: tables_of.induct) auto

lemma exec_Build_ok:
  "cr df = None \<Longrightarrow> exec cr con (Build t (Inr df) # rest) = exec cr (con (t \<mapsto> df)) rest"
  by (simp add: drop_create_def)

lemma exec_Build_create_raises:
  "cr df = Some e \<Longrightarrow> exec cr con (Build t (Inr df) # rest) = (con (t := None), Some e)"
  by (simp add: drop_create_def)

lemma exec_ok_prefix:
  "\<forall>x \<in> set done. raised cr x = None \<Longrightarrow>
     \<exists>con1. exec cr con done = (con1, None) \<and>
            (\<forall>rest. exec cr con (done @ rest) = exec cr con1 rest)"
proof (induction "done" arbitrary: con)
  case Nil
  then show ?case by simp
next
  case (Cons x xs)
  then have xs: "\<forall>x \<in> set xs. raised cr x = None" and x: "raised cr x = None" by simp_all
  show ?case
  proof (cases x)
    case (Build t r)
    with x obtain df where r: "r = Inr df" and c: "cr df = None" by (cases r) auto
    from Cons.IH [OF xs, of "con (t \<mapsto> df)"] show ?thesis
      unfolding Build r append_Cons by (simp only: exec_Build_ok [of cr, OF c])
  next
    case (Read r)
    with x have "r = None" by simp
    with Cons.IH [OF xs, of con] show ?thesis unfolding Read by simp
  qed
qed

lemma exec_unchanged:
  "exec cr con stmts = (con', r) \<Longrightarrow> t \<notin> set (tables_of stmts) \<Longrightarrow> con' t = con t"
proof (induction stmts arbitrary: con)
  case Nil
  then show ?case by simp
next
  case (Cons x xs)
  show ?case
  proof (cases x)
    case (Build t' fr)
    with Cons.prems(2) have ne: "t \<noteq> t'" and tx: "t \<notin> set (tables_of xs)" by simp_all
    show ?thesis
    proof (cases fr)
      case (Inl e)
      with Cons.prems(1) Build show ?thesis by simp
    next
      case (Inr df)
      show ?thesis
      proof (cases "cr df")
        case None
        from Cons.prems(1) have "exec cr (con (t' \<mapsto> df)) xs = (con', r)"
          unfolding Build Inr by (simp only: exec_Build_ok [of cr, OF None])
        from Cons.IH [OF this tx] ne show ?thesis by simp
      next
        case (Some e)
        from Cons.prems(1) have "con' = con (t' := None)"
          unfolding Build Inr exec_Build_create_raises [of cr, OF Some] by simp
        with ne show ?thesis by simp
      qed
    qed
  next
    case (Read rd)
    with Cons.prems have tx: "t \<notin> set (tables_of xs)" by simp
    show ?thesis
    proof (cases rd)
      case None
      with Cons.prems(1) Read have "exec cr con xs = (con', r)" by simp
      from Cons.IH [OF this tx] show ?thesis .
    next
      case (Some e)
      with Cons.prems(1) Read show ?thesis by simp
    qed
  qed
qed

lemma exec_written:
  "exec cr con stmts = (con', None) \<Longrightarrow> Build t (Inr df) \<in> set stmts \<Longrightarrow>
     distinct (tables_of stmts) \<Longrightarrow> con' t = Some df"
proof (induction stmts arbitrary: con)
  case Nil
  then show ?case by simp
next
  case (Cons x xs)
  show ?case
  proof (cases x)
    case (Build t' fr)
    with Cons.prems(3) have tx: "t' \<notin> set (tables_of xs)" and dx: "distinct (tables_of xs)"
      by simp_all
    show ?thesis
    proof (cases fr)
      case (Inl e)
      with Cons.prems(1) Build show ?thesis by simp
    next
      case (Inr df')
      show ?thesis
      proof (cases "cr df'")
        case (Some e)
        from Cons.prems(1) show ?thesis
          unfolding Build Inr exec_Build_create_raises [of cr, OF Some] by simp
      next
        case None
        from Cons.prems(1) have run: "exec cr (con (t' \<mapsto> df')) xs = (con', None)"
          unfolding Build Inr by (simp only: exec_Build_ok [of cr, OF None])
        show ?thesis
        proof (cases "Build t (Inr df) \<in> set xs")
          case True
          from Cons.IH [OF run True dx] show ?thesis .
        next
          case False
          with Cons.prems(2) Build Inr have eq: "t' = t" "df' = df" by auto
          from exec_unchanged [OF run tx] show ?thesis by (simp add: eq)
        qed
      qed
    qed
  next
    case (Read rd)
    with Cons.prems have dx: "distinct (tables_of xs)" and m: "Build t (Inr df) \<in> set xs"
      by auto
    show ?thesis
    proof (cases rd)
      case None
      with Cons.prems(1) Read have "exec cr con xs = (con', None)" by simp
      from Cons.IH [OF this m dx] show ?thesis .
    next
      case (Some e)
      with Cons.prems(1) Read show ?thesis by simp
    qed
  qed
qed

lemma exec_raise:
  "raised cr s = Some e \<Longrightarrow>
     exec cr con (s # rest) =
       ((case s of Build t (Inr df) \<Rightarrow> con (t := None) | _ \<Rightarrow> con), Some e)"
  by (cases s) (auto simp: drop_create_def split: sum.splits)

lemma silver_stmts_distinct: "distinct (tables_of (silver_stmts B))"
  by (simp add: silver_stmts_def events_stmts_def split: sum.splits)

lemma silver_run_exec: "silver_run B con = exec (creation_error B) con (silver_stmts B)"
  by (simp add: silver_run_def silver_stmts_def)

text \<open>When no statement raises, the stage completes.\<close>

lemma silver_run_completes:
  "\<forall>x \<in> set (silver_stmts B). raised (creation_error B) x = None \<Longrightarrow>
     snd (silver_run B con) = None"
  using exec_ok_prefix [of "silver_stmts B" "creation_error B" con]
  by (auto simp: silver_run_exec)

text \<open>
  C3, as the code has it. If a statement of the stage raises, the stage aborts at the
  first one that does, with its exception, and the store is left as follows: every table
  built by an earlier statement holds its new contents; the table of the failing builder
  is left dropped when it was its \<open>CREATE TABLE\<close> that raised, after the \<open>DROP\<close>; every
  other table (that of a builder whose frame computation raised, and that of every later
  builder) holds what it held before the run. Nothing is rolled back.
\<close>

theorem silver_aborts_at_first_raise:
  assumes "\<exists>x \<in> set (silver_stmts B). raised (creation_error B) x \<noteq> None"
  shows "\<exists>done s rest e con'.
           silver_stmts B = done @ s # rest \<and>
           (\<forall>x \<in> set done. raised (creation_error B) x = None) \<and>
           raised (creation_error B) s = Some e \<and>
           silver_run B con = (con', Some e) \<and>
           (\<forall>t df. Build t (Inr df) \<in> set done \<longrightarrow> con' t = Some df) \<and>
           (\<forall>t df. s = Build t (Inr df) \<longrightarrow> con' t = None) \<and>
           (\<forall>t. t \<notin> set (tables_of done) \<longrightarrow> (\<forall>df. s \<noteq> Build t (Inr df)) \<longrightarrow> con' t = con t)"
proof -
  let ?cr = "creation_error B"
  from split_list_first_prop [OF assms]
  obtain dn s rest where d: "silver_stmts B = dn @ s # rest" "raised ?cr s \<noteq> None"
      "\<forall>x \<in> set dn. \<not> raised ?cr x \<noteq> None" by blast
  from d(2) obtain e where e: "raised ?cr s = Some e" by auto
  from d(3) have ok: "\<forall>x \<in> set dn. raised ?cr x = None" by simp
  from exec_ok_prefix [OF ok, of con]
  obtain con1 where c1: "exec ?cr con dn = (con1, None)"
      "\<forall>rest. exec ?cr con (dn @ rest) = exec ?cr con1 rest" by blast
  let ?con' = "(case s of Build t (Inr df) \<Rightarrow> con1 (t := None) | _ \<Rightarrow> con1)"
  have run: "silver_run B con = (?con', Some e)"
    using c1(2) exec_raise [OF e, of con1 rest] by (simp add: silver_run_exec d(1))
  have dist: "distinct (tables_of dn @ tables_of (s # rest))"
    using silver_stmts_distinct [of B] d(1) by (simp add: tables_of_append)
  then have ddn: "distinct (tables_of dn)" by simp
  have w1: "\<forall>t df. Build t (Inr df) \<in> set dn \<longrightarrow> con1 t = Some df"
    using exec_written [OF c1(1) _ ddn] by blast
  have in_tabs: "\<And>t r. Build t r \<in> set dn \<Longrightarrow> t \<in> set (tables_of dn)"
    by (induction dn rule: tables_of.induct) auto
  have w: "\<forall>t df. Build t (Inr df) \<in> set dn \<longrightarrow> ?con' t = Some df"
  proof (intro allI impI)
    fix t df assume b: "Build t (Inr df) \<in> set dn"
    then have "t \<in> set (tables_of dn)" by (rule in_tabs)
    with dist have "t \<notin> set (tables_of (s # rest))" by auto
    then have "\<forall>df. s \<noteq> Build t (Inr df)" by auto
    then have "?con' t = con1 t" by (auto split: stmt.splits sum.splits)
    with w1 b show "?con' t = Some df" by simp
  qed
  have f: "\<forall>t df. s = Build t (Inr df) \<longrightarrow> ?con' t = None" by simp
  have u: "\<forall>t. t \<notin> set (tables_of dn) \<longrightarrow> (\<forall>df. s \<noteq> Build t (Inr df)) \<longrightarrow> ?con' t = con t"
  proof (intro allI impI)
    fix t assume t: "t \<notin> set (tables_of dn)" and n: "\<forall>df. s \<noteq> Build t (Inr df)"
    from n have "?con' t = con1 t" by (auto split: stmt.splits sum.splits)
    with exec_unchanged [OF c1(1) t] show "?con' t = con t" by simp
  qed
  from d(1) ok e run w f u show ?thesis by blast
qed

text \<open>The \<open>CREATE TABLE\<close> of \<open>dim_match\<close> raises: \<open>dim_competition\<close> holds its new
  contents, \<open>dim_match\<close> is gone, the other tables hold the old contents.\<close>

theorem silver_aborts_at_first_raise_witness:
  "silver_run create_failing_builders (\<lambda>t. Some 0) =
     (((\<lambda>t. Some 0) (dim_competition \<mapsto> 1)) (dim_match := None),
      Some (Raised ''create dim_match'')) \<and>
   (\<exists>done s rest e con'.
      silver_stmts create_failing_builders = done @ s # rest \<and>
      (\<forall>x \<in> set done. raised (creation_error create_failing_builders) x = None) \<and>
      raised (creation_error create_failing_builders) s = Some e \<and>
      silver_run create_failing_builders (\<lambda>t. Some 0) = (con', Some e) \<and>
      (\<forall>t df. Build t (Inr df) \<in> set done \<longrightarrow> con' t = Some df) \<and>
      (\<forall>t df. s = Build t (Inr df) \<longrightarrow> con' t = None) \<and>
      (\<forall>t. t \<notin> set (tables_of done) \<longrightarrow> (\<forall>df. s \<noteq> Build t (Inr df)) \<longrightarrow> con' t = Some 0))"
proof (rule conjI)
  show "silver_run create_failing_builders (\<lambda>t. Some 0) =
     (((\<lambda>t. Some 0) (dim_competition \<mapsto> 1)) (dim_match := None),
      Some (Raised ''create dim_match''))"
    by (simp add: silver_run_def create_failing_builders_def drop_create_def)
  have h: "\<exists>x \<in> set (silver_stmts create_failing_builders).
      raised (creation_error create_failing_builders) x \<noteq> None"
    by (simp add: silver_stmts_def create_failing_builders_def)
  show "\<exists>done s rest e con'.
      silver_stmts create_failing_builders = done @ s # rest \<and>
      (\<forall>x \<in> set done. raised (creation_error create_failing_builders) x = None) \<and>
      raised (creation_error create_failing_builders) s = Some e \<and>
      silver_run create_failing_builders (\<lambda>t. Some 0) = (con', Some e) \<and>
      (\<forall>t df. Build t (Inr df) \<in> set done \<longrightarrow> con' t = Some df) \<and>
      (\<forall>t df. s = Build t (Inr df) \<longrightarrow> con' t = None) \<and>
      (\<forall>t. t \<notin> set (tables_of done) \<longrightarrow> (\<forall>df. s \<noteq> Build t (Inr df)) \<longrightarrow> con' t = Some 0)"
    using silver_aborts_at_first_raise [OF h, of "\<lambda>t. Some 0"] .
qed

text \<open>The claim as the specification states it fails: \<open>dim_match\<close> raises, the stage
  aborts, and \<open>dim_competition\<close> no longer holds its pre-run contents.\<close>

theorem silver_partial_commit_counterexample:
  "snd (silver_run failing_builders (\<lambda>t. Some 0)) = Some (Raised ''dim_match'') \<and>
   fst (silver_run failing_builders (\<lambda>t. Some 0)) dim_competition = Some 1 \<and>
   (\<lambda>t. Some (0::nat)) dim_competition = Some 0"
  by (simp add: silver_run_def failing_builders_def drop_create_def)

subsection \<open>A missing source aborts the Bronze run\<close>

lemma ingest_error:
  "ingest tp u force fs = (fs', Some e) \<Longrightarrow> fs' = fs \<and> e = FileNotFoundError u \<and> raw fs u = None"
  by (auto simp: ingest_def split: if_splits option.splits)

lemma ingest_match_units_append:
  "ingest_match_units tp force ms1 fs = (fs1, None) \<Longrightarrow>
     ingest_match_units tp force (ms1 @ ms2) fs = ingest_match_units tp force ms2 fs1"
  by (induction ms1 arbitrary: fs) (auto split: prod.splits option.splits)

lemma ingest_seasons_append:
  "ingest_seasons tp ids force cs1 fs = (fs1, None) \<Longrightarrow>
     ingest_seasons tp ids force (cs1 @ cs2) fs = ingest_seasons tp ids force cs2 fs1"
  by (induction cs1 arbitrary: fs) (auto split: prod.splits option.splits)

text \<open>
  C2, as the code has it. Let the run have gone through the seasons \<open>cs1\<close> and, within
  the season \<open>(cid, sid)\<close>, through the matches \<open>ms1\<close>. If the next unit, the events of
  match \<open>m\<close> or (its events done) the lineups of \<open>m\<close>, has no raw source and is not
  skipped, the run ends there with \<open>FileNotFoundError\<close> for that unit, and the files are
  those of that moment: the artifacts written so far stay, and no unit of the later
  matches \<open>ms2\<close> or the later seasons \<open>cs2\<close> is ingested.
\<close>

theorem missing_source_aborts_run:
  assumes "ingest_competitions tp force fs = (fs0, None)"
      and "ingest_seasons tp ids force cs1 fs0 = (fs1, None)"
      and "ingest_matches tp cid sid force fs1 = (fs2, None)"
      and "raw fs2 (Matches cid sid) = Some d" and "ids d = ms1 @ m # ms2"
      and "ingest_match_units tp force ms1 fs2 = (fs3, None)"
      and "u = Events m \<and> fs4 = fs3 \<or> u = Lineups m \<and> ingest_events tp m force fs3 = (fs4, None)"
      and "raw fs4 u = None" and "bronze fs4 u = None \<or> force"
    shows "bronze_run tp ids force (cs1 @ (cid, sid) # cs2) fs = (fs4, Some (FileNotFoundError u))"
proof -
  have unit: "ingest tp u force fs4 = (fs4, Some (FileNotFoundError u))"
    using assms(8,9) by (auto simp: ingest_def)
  have "ingest_match_units tp force (m # ms2) fs3 = (fs4, Some (FileNotFoundError u))"
    using assms(7) unit by (auto simp: ingest_events_def ingest_lineups_def)
  then have "ingest_match_units tp force (ms1 @ m # ms2) fs2 = (fs4, Some (FileNotFoundError u))"
    using ingest_match_units_append [OF assms(6)] by simp
  then have "ingest_seasons tp ids force ((cid, sid) # cs2) fs1 = (fs4, Some (FileNotFoundError u))"
    using assms(3,4,5) by simp
  then have "ingest_seasons tp ids force (cs1 @ (cid, sid) # cs2) fs0 =
      (fs4, Some (FileNotFoundError u))"
    using ingest_seasons_append [OF assms(2)] by simp
  then show ?thesis using assms(1) by (simp add: bronze_run_def)
qed

theorem missing_source_aborts_run_witness:
  "bronze_run (\<lambda>u d. d) (\<lambda>d. d) False [(43, 106)] two_matches =
     (two_matches \<lparr> bronze := [Competitions \<mapsto> [], Matches 43 106 \<mapsto> [1, 2]] \<rparr>,
      Some (FileNotFoundError (Events 1)))"
  using missing_source_aborts_run [where tp = "\<lambda>u d. d" and ids = "\<lambda>d. d" and force = False
      and fs = two_matches and ?cs1.0 = "[]" and cid = 43 and sid = 106 and ?cs2.0 = "[]"
      and ?fs0.0 = "two_matches \<lparr> bronze := [Competitions \<mapsto> []] \<rparr>"
      and ?fs1.0 = "two_matches \<lparr> bronze := [Competitions \<mapsto> []] \<rparr>"
      and ?fs2.0 = "two_matches \<lparr> bronze := [Competitions \<mapsto> [], Matches 43 106 \<mapsto> [1, 2]] \<rparr>"
      and d = "[1, 2]" and ?ms1.0 = "[]" and m = 1 and ?ms2.0 = "[2]"
      and ?fs3.0 = "two_matches \<lparr> bronze := [Competitions \<mapsto> [], Matches 43 106 \<mapsto> [1, 2]] \<rparr>"
      and ?fs4.0 = "two_matches \<lparr> bronze := [Competitions \<mapsto> [], Matches 43 106 \<mapsto> [1, 2]] \<rparr>"
      and u = "Events 1"]
  by (simp add: two_matches_def ingest_competitions_def ingest_matches_def ingest_def)

text \<open>The claim as the specification states it fails: the raw events of match 1 are
  missing, and the run ends without the events and lineups of match 2, whose sources
  exist.\<close>

theorem sibling_units_not_ingested_counterexample:
  "snd (bronze_run (\<lambda>u d. d) (\<lambda>d. d) False [(43, 106)] two_matches) =
     Some (FileNotFoundError (Events 1)) \<and>
   raw two_matches (Events 2) = Some [] \<and> raw two_matches (Lineups 2) = Some [] \<and>
   bronze (fst (bronze_run (\<lambda>u d. d) (\<lambda>d. d) False [(43, 106)] two_matches)) (Events 2) = None \<and>
   bronze (fst (bronze_run (\<lambda>u d. d) (\<lambda>d. d) False [(43, 106)] two_matches)) (Lineups 2) = None"
  by (simp add: bronze_run_def two_matches_def ingest_competitions_def ingest_matches_def
      ingest_events_def ingest_lineups_def ingest_def)

subsection \<open>The xG apply step\<close>

text \<open>What the apply step writes for a row: the model's output whenever the row has a
  location, whatever its shot type; otherwise \<open>0.76\<close> for a penalty, and the value the
  column held (\<open>0.0\<close> for a null) for any other shot.\<close>

lemma apply_xg_model_row:
  "i < length df \<Longrightarrow>
     s_xg_model (apply_xg_model predict_proba df ! i) =
       Some (if has_location (df ! i) then predict_proba (build_features (df ! i))
             else if s_shot_type (df ! i) = Some ''Penalty'' then 0.76
             else (case s_xg_model (df ! i) of None \<Rightarrow> 0 | Some v \<Rightarrow> v))"
  by (simp add: apply_xg_model_def Let_def update_cell_def split: option.splits)

text \<open>
  C1 at a penalty with a recorded location and a model that answers \<open>0.5\<close>: the value
  written is the model's \<open>0.5\<close>, not \<open>0.76\<close>. The update from \<open>df_valid\<close> runs after the
  penalties were set and overwrites them.
\<close>

theorem penalty_with_location_gets_model_output:
  "map s_xg_model (apply_xg_model (\<lambda>f. 1 / 2) [penalty_shot]) = [Some (1 / 2)] \<and>
   s_shot_type penalty_shot = Some ''Penalty'' \<and> (1 / 2 :: real) \<noteq> 0.76"
  by (simp add: apply_xg_model_def penalty_shot_def has_location_def update_cell_def)


subsection \<open>Joins and groups\<close>

lemma set_left_join_fst: "fst ` set (left_join on ls rs) = set ls"
proof -
  have "\<And>l. fst ` set (case filter (on l) rs of [] \<Rightarrow> [(l, None)]
                          | ms \<Rightarrow> map (\<lambda>r. (l, Some r)) ms) = {l}"
    by (auto split: list.splits simp: image_iff)
  then show ?thesis
    unfolding left_join_def by (auto simp: image_UN)
qed

lemma left_join_filter:
  "filter (\<lambda>(l, r). P l) (left_join on ls rs) = left_join on (filter P ls) rs"
  unfolding left_join_def
  by (induction ls) (auto split: list.splits)

lemma left_join_filter_fst:
  "filter (\<lambda>x. P (fst x)) (left_join on ls rs) = left_join on (filter P ls) rs"
  using left_join_filter [of P on ls rs] by (simp add: case_prod_unfold)

lemma set_group_by:
  "(k, g) \<in> set (group_by key xs) \<Longrightarrow>
     g = filter (\<lambda>r. key r = k) xs \<and> g \<noteq> [] \<and> k \<in> key ` set xs"
  by (auto simp: group_by_def filter_empty_conv)

lemma group_by_keys: "fst ` set (group_by key xs) = key ` set xs"
  by (force simp: group_by_def)

lemmas gold_examples =
  gold_passes_def gold_pass_def gold_events_def gold_event_def gold_shot_def

subsection \<open>Pass network edges\<close>

lemma edge_joined_filter:
  "filter (\<lambda>(p, a, b). P p) (edge_joined passes events) = edge_joined (filter P passes) events"
  unfolding edge_joined_def
  by (simp add: filter_map comp_def case_prod_unfold
      left_join_filter_fst [of "\<lambda>x. P (fst x)"] left_join_filter_fst [of P])

lemma edge_joined_fst: "fst ` set (edge_joined passes events) = set passes"
proof -
  have "fst ` set (edge_joined passes events) =
      fst ` fst ` set (left_join
          (\<lambda>(p, ep) (m, pl, name). p_match_id p = m \<and> sql_eq (p_recipient_id p) pl)
          (left_join (\<lambda>p (m, t, pl, name).
                        p_match_id p = m \<and> sql_eq (p_team_id p) t \<and> sql_eq (p_player_id p) pl)
             passes (team_player_names events))
          (player_names events))"
    unfolding edge_joined_def by (force simp: image_iff)
  then show ?thesis by (simp add: set_left_join_fst)
qed

text \<open>
  C8. Every edge row counts at least two passes, has a recipient, and goes back to a
  completed pass of the table with that match, team, passer and recipient; and the
  edges are the same when every pass that is not completed or has no recipient is
  taken out of the passes table first: nothing else is aggregated.
\<close>

theorem pass_network_edges_from_completed_passes:
  "(\<forall>e \<in> set (build_gold_pass_network_edges passes events).
      e_pass_count e \<ge> 2 \<and> e_recipient_id e \<noteq> None \<and>
      (\<exists>p \<in> set passes. p_is_completed p \<and> p_recipient_id p = e_recipient_id e \<and>
          p_match_id p = e_match_id e \<and> p_team_id p = e_team_id e \<and>
          p_player_id p = e_passer_id e)) \<and>
   build_gold_pass_network_edges passes events =
     build_gold_pass_network_edges
       (filter (\<lambda>p. p_is_completed p = True \<and> p_recipient_id p \<noteq> None) passes) events"
proof (intro conjI ballI)
  show "build_gold_pass_network_edges passes events =
     build_gold_pass_network_edges
       (filter (\<lambda>p. p_is_completed p = True \<and> p_recipient_id p \<noteq> None) passes) events"
    unfolding build_gold_pass_network_edges_def
    by (simp only: edge_joined_filter filter_filter conj_absorb)
next
  fix e assume "e \<in> set (build_gold_pass_network_edges passes events)"
  then obtain k g where kg: "(k, g) \<in> set (group_by edge_key
             (filter (\<lambda>(p, a, b). p_is_completed p = True \<and> p_recipient_id p \<noteq> None)
                (edge_joined passes events)))"
     and c: "e_pass_count e \<ge> 2"
     and e: "e = (\<lambda>((m, t, pl, rc, passer, recipient), g).
               \<lparr> e_match_id = m, e_team_id = t, e_passer_id = pl, e_recipient_id = rc,
                 e_passer_name = passer, e_recipient_name = recipient,
                 e_pass_count = length g,
                 e_avg_start_x = sql_avg (map (\<lambda>(p, a, b). p_location_x p) g),
                 e_avg_start_y = sql_avg (map (\<lambda>(p, a, b). p_location_y p) g),
                 e_avg_end_x = sql_avg (map (\<lambda>(p, a, b). p_end_location_x p) g),
                 e_avg_end_y = sql_avg (map (\<lambda>(p, a, b). p_end_location_y p) g) \<rparr>) (k, g)"
    unfolding build_gold_pass_network_edges_def by auto
  from set_group_by [OF kg] obtain j where j: "j \<in> set (edge_joined passes events)"
    "(\<lambda>(p, a, b). p_is_completed p = True \<and> p_recipient_id p \<noteq> None) j" "edge_key j = k"
    by auto
  obtain p a b where pab: "j = (p, a, b)" by (cases j) auto
  have pin: "p \<in> set passes" using j(1) pab edge_joined_fst [of passes events] by force
  show "e_pass_count e \<ge> 2" by (rule c)
  show "e_recipient_id e \<noteq> None" using e j pab by (auto simp: edge_key_def)
  show "\<exists>p \<in> set passes. p_is_completed p \<and> p_recipient_id p = e_recipient_id e \<and>
          p_match_id p = e_match_id e \<and> p_team_id p = e_team_id e \<and>
          p_player_id p = e_passer_id e"
    using e j pab pin by (auto simp: edge_key_def intro!: bexI [of _ p])
qed

theorem pass_network_edges_from_completed_passes_witness:
  "map e_pass_count (build_gold_pass_network_edges gold_passes gold_events) = [2] \<and>
   list_all (\<lambda>e. e_pass_count e \<ge> 2 \<and> e_recipient_id e \<noteq> None)
     (build_gold_pass_network_edges gold_passes gold_events) \<and>
   build_gold_pass_network_edges gold_passes gold_events =
     build_gold_pass_network_edges
       (filter (\<lambda>p. p_is_completed p = True \<and> p_recipient_id p \<noteq> None) gold_passes) gold_events"
proof -
  have c: "map e_pass_count (build_gold_pass_network_edges gold_passes gold_events) = [2]"
    by (simp add: build_gold_pass_network_edges_def edge_joined_def left_join_def group_by_def
        team_player_names_def player_names_def sql_eq_def edge_key_def gold_examples)
  note t = pass_network_edges_from_completed_passes [of gold_passes gold_events]
  from t have a: "list_all (\<lambda>e. e_pass_count e \<ge> 2 \<and> e_recipient_id e \<noteq> None)
     (build_gold_pass_network_edges gold_passes gold_events)"
    unfolding list_all_iff by fast
  from t have b: "build_gold_pass_network_edges gold_passes gold_events =
     build_gold_pass_network_edges
       (filter (\<lambda>p. p_is_completed p = True \<and> p_recipient_id p \<noteq> None) gold_passes) gold_events"
    by (rule conjunct2)
  show ?thesis by (intro conjI c a b)
qed

subsection \<open>Team stats\<close>

text \<open>
  C10. A (match, team) pair has a row in the team stats exactly when the shots table has
  a row of that team in that match: a team without a shot in a match has no row, whatever
  its passes, carries and pressures.
\<close>

theorem team_stats_only_for_shooting_teams:
  "((m, t) \<in> (\<lambda>r. (ts_match_id r, ts_team_id r)) `
                 set (build_gold_team_stats shots passes carries events))
    = ((m, t) \<in> (\<lambda>s. (s_match_id s, s_team_id s)) ` set shots)"
proof -
  let ?J = "left_join (\<lambda>s (m, t, name). s_match_id s = m \<and> sql_eq (s_team_id s) t)
              shots (team_names events)"
  let ?key = "\<lambda>(s, e). (s_match_id s, s_team_id s,
                (case e of None \<Rightarrow> None | Some (m, t, name) \<Rightarrow> name))"
  have "(\<lambda>r. (ts_match_id r, ts_team_id r)) `
          set (build_gold_team_stats shots passes carries events)
     = (\<lambda>(m, t, n). (m, t)) ` fst ` set (group_by ?key ?J)"
    unfolding build_gold_team_stats_def by (force simp: image_iff)
  also have "\<dots> = (\<lambda>(m, t, n). (m, t)) ` ?key ` set ?J" by (simp only: group_by_keys)
  also have "\<dots> = (\<lambda>s. (s_match_id s, s_team_id s)) ` fst ` set ?J"
    by (force simp: image_iff)
  also have "\<dots> = (\<lambda>s. (s_match_id s, s_team_id s)) ` set shots"
    by (simp only: set_left_join_fst)
  finally show ?thesis by simp
qed

text \<open>Team 2 of the example completes a pass and takes no shot: it has no row.\<close>

theorem team_stats_only_for_shooting_teams_witness:
  "(1, Some 2) \<notin> (\<lambda>r. (ts_match_id r, ts_team_id r)) `
       set (build_gold_team_stats [gold_shot] gold_passes [] gold_events) \<and>
   length (team_passes gold_passes 1 (Some 2)) = 1 \<and>
   (1, Some 1) \<in> (\<lambda>r. (ts_match_id r, ts_team_id r)) `
       set (build_gold_team_stats [gold_shot] gold_passes [] gold_events)"
  using team_stats_only_for_shooting_teams [of 1 "Some 2" "[gold_shot]" gold_passes "[]" gold_events]
    team_stats_only_for_shooting_teams [of 1 "Some 1" "[gold_shot]" gold_passes "[]" gold_events]
  by (simp add: gold_examples team_passes_def sql_eq_def)


subsection \<open>xG timeline\<close>

lemma length_running_sum: "length (running_sum acc vs) = length vs"
  by (induction vs arbitrary: acc) (auto simp: Let_def)

lemma running_sum_mono:
  "\<forall>x. Some x \<in> set vs \<longrightarrow> 0 \<le> x \<Longrightarrow>
     sorted_wrt cumulative_le (running_sum acc vs) \<and>
     (\<forall>b \<in> set (running_sum acc vs). cumulative_le acc b)"
proof (induction vs arbitrary: acc)
  case Nil
  then show ?case by simp
next
  case (Cons v vs)
  let ?acc' = "(case v of None \<Rightarrow> acc | Some x \<Rightarrow> Some (case acc of None \<Rightarrow> x | Some a \<Rightarrow> a + x))"
  from Cons.prems have p: "\<forall>x. Some x \<in> set vs \<longrightarrow> 0 \<le> x" by simp
  from Cons.IH [OF p, of ?acc'] have ih: "sorted_wrt cumulative_le (running_sum ?acc' vs)"
     "\<forall>b \<in> set (running_sum ?acc' vs). cumulative_le ?acc' b" by simp_all
  have step: "cumulative_le acc ?acc'" using Cons.prems
    by (auto simp: cumulative_le_def split: option.splits)
  have tr: "\<And>b. cumulative_le ?acc' b \<Longrightarrow> cumulative_le acc b" using Cons.prems
    by (auto simp: cumulative_le_def split: option.splits)
  have eq: "running_sum acc (v # vs) = ?acc' # running_sum ?acc' vs" by (simp add: Let_def)
  have a: "sorted_wrt cumulative_le (?acc' # running_sum ?acc' vs)" using ih by simp
  have b: "\<forall>b \<in> set (?acc' # running_sum ?acc' vs). cumulative_le acc b"
  proof
    fix b assume "b \<in> set (?acc' # running_sum ?acc' vs)"
    then consider "b = ?acc'" | "b \<in> set (running_sum ?acc' vs)" by auto
    then show "cumulative_le acc b"
    proof cases
      case 1
      with step show ?thesis by simp
    next
      case 2
      with ih(2) have "cumulative_le ?acc' b" by (rule_tac bspec)
      then show ?thesis by (rule tr)
    qed
  qed
  from a b show ?case unfolding eq by (rule conjI)
qed

lemma filter_concat_distinct:
  "distinct ks \<Longrightarrow> (\<And>k r. k \<in> set ks \<Longrightarrow> r \<in> set (f k) \<Longrightarrow> key r = k) \<Longrightarrow>
     filter (\<lambda>r. key r = k0) (concat (map f ks)) = (if k0 \<in> set ks then f k0 else [])"
proof (induction ks)
  case Nil
  then show ?case by simp
next
  case (Cons k ks)
  have a: "filter (\<lambda>r. key r = k0) (f k) = (if k = k0 then f k else [])"
    using Cons.prems(2) [of k] by (auto simp: filter_empty_conv filter_id_conv)
  have b: "filter (\<lambda>r. key r = k0) (concat (map f ks)) = (if k0 \<in> set ks then f k0 else [])"
    using Cons by auto
  show ?case using a b Cons.prems(1) by auto
qed

lemma sorted_const_prefix:
  "sorted (map (\<lambda>r. (a, b, f r)) xs) = sorted (map f xs)"
  by (induction xs) (auto simp: less_eq_prod_def)

lemma map_map2_left:
  "length xs = length ys \<Longrightarrow> (\<And>x y. h (g x y) = k x) \<Longrightarrow> map h (map2 g xs ys) = map k xs"
  by (induction xs ys rule: list_induct2) auto

lemma map_map2_right:
  "length xs = length ys \<Longrightarrow> (\<And>x y. h (g x y) = y) \<Longrightarrow> map h (map2 g xs ys) = ys"
  by (induction xs ys rule: list_induct2) auto

lemma set_map2_left: "r \<in> set (map2 g xs ys) \<Longrightarrow> \<exists>x \<in> set xs. \<exists>y. r = g x y"
  by (auto dest: set_zip_leftD)

lemma window_partition_xg:
  "map t_xg (window_partition part) = map (\<lambda>(s, name). s_xg s) (sort_key (\<lambda>(s, name). shot_order_key s) part)"
  unfolding window_partition_def Let_def
proof (rule map_map2_left)
  show "length (sort_key (\<lambda>(s, name). shot_order_key s) part) =
    length (running_sum None (map (\<lambda>(s, name). s_xg s) (sort_key (\<lambda>(s, name). shot_order_key s) part)))"
    by (simp only: length_running_sum length_map)
next
  fix x :: "shot_row \<times> string option" and y
  show "t_xg ((case x of (s, name) \<Rightarrow> \<lambda>c.
                 \<lparr> t_match_id = s_match_id s, t_team_id = s_team_id s, t_team_name = name,
                   t_period = s_period s, t_minute = s_minute s, t_second = s_second s,
                   t_xg = s_xg s, t_is_goal = s_is_goal s, t_outcome = s_outcome s,
                   t_cumulative_xg = c \<rparr>) y) = (case x of (s, name) \<Rightarrow> s_xg s)"
    by (cases x) simp
qed

lemma window_partition_cum:
  "map t_cumulative_xg (window_partition part) =
     running_sum None (map (\<lambda>(s, name). s_xg s) (sort_key (\<lambda>(s, name). shot_order_key s) part))"
  unfolding window_partition_def Let_def
proof (rule map_map2_right)
  show "length (sort_key (\<lambda>(s, name). shot_order_key s) part) =
    length (running_sum None (map (\<lambda>(s, name). s_xg s) (sort_key (\<lambda>(s, name). shot_order_key s) part)))"
    by (simp only: length_running_sum length_map)
next
  fix x :: "shot_row \<times> string option" and y
  show "t_cumulative_xg ((case x of (s, name) \<Rightarrow> \<lambda>c.
                 \<lparr> t_match_id = s_match_id s, t_team_id = s_team_id s, t_team_name = name,
                   t_period = s_period s, t_minute = s_minute s, t_second = s_second s,
                   t_xg = s_xg s, t_is_goal = s_is_goal s, t_outcome = s_outcome s,
                   t_cumulative_xg = c \<rparr>) y) = y"
    by (cases x) simp
qed

lemma window_partition_keys:
  "map timeline_order_key (window_partition part) =
      map (\<lambda>(s, name). shot_order_key s) (sort_key (\<lambda>(s, name). shot_order_key s) part)"
  unfolding window_partition_def Let_def
proof (rule map_map2_left)
  show "length (sort_key (\<lambda>(s, name). shot_order_key s) part) =
    length (running_sum None (map (\<lambda>(s, name). s_xg s) (sort_key (\<lambda>(s, name). shot_order_key s) part)))"
    by (simp only: length_running_sum length_map)
next
  fix x :: "shot_row \<times> string option" and y
  show "timeline_order_key ((case x of (s, name) \<Rightarrow> \<lambda>c.
                 \<lparr> t_match_id = s_match_id s, t_team_id = s_team_id s, t_team_name = name,
                   t_period = s_period s, t_minute = s_minute s, t_second = s_second s,
                   t_xg = s_xg s, t_is_goal = s_is_goal s, t_outcome = s_outcome s,
                   t_cumulative_xg = c \<rparr>) y) = (case x of (s, name) \<Rightarrow> shot_order_key s)"
    by (cases x) (simp add: timeline_order_key_def shot_order_key_def)
qed

lemma window_partition_sorted:
  "sorted (map timeline_order_key (window_partition part))"
  by (simp only: window_partition_keys sorted_sort_key)

lemma window_partition_pkeys:
  "map (\<lambda>r. (t_match_id r, t_team_id r)) (window_partition part) =
      map (\<lambda>(s, name). (s_match_id s, s_team_id s)) (sort_key (\<lambda>(s, name). shot_order_key s) part)"
  unfolding window_partition_def Let_def
proof (rule map_map2_left)
  show "length (sort_key (\<lambda>(s, name). shot_order_key s) part) =
    length (running_sum None (map (\<lambda>(s, name). s_xg s) (sort_key (\<lambda>(s, name). shot_order_key s) part)))"
    by (simp only: length_running_sum length_map)
next
  fix x :: "shot_row \<times> string option" and y
  show "(\<lambda>r. (t_match_id r, t_team_id r)) ((case x of (s, name) \<Rightarrow> \<lambda>c.
                 \<lparr> t_match_id = s_match_id s, t_team_id = s_team_id s, t_team_name = name,
                   t_period = s_period s, t_minute = s_minute s, t_second = s_second s,
                   t_xg = s_xg s, t_is_goal = s_is_goal s, t_outcome = s_outcome s,
                   t_cumulative_xg = c \<rparr>) y) = (case x of (s, name) \<Rightarrow> (s_match_id s, s_team_id s))"
    by (cases x) simp
qed

lemma window_partition_key:
  assumes "r \<in> set (window_partition part)"
  shows "(t_match_id r, t_team_id r) \<in> (\<lambda>(s, name). (s_match_id s, s_team_id s)) ` set part"
proof -
  from assms have "(t_match_id r, t_team_id r) \<in>
      set (map (\<lambda>r. (t_match_id r, t_team_id r)) (window_partition part))"
    by simp
  then show ?thesis
    by (simp only: window_partition_pkeys set_map set_sort)
qed

lemma running_sum_nth:
  "i < length vs \<Longrightarrow>
     running_sum acc vs ! i =
       (case acc of None \<Rightarrow> sql_sum (take (Suc i) vs)
        | Some a \<Rightarrow> Some (a + sum_list (non_null (take (Suc i) vs))))"
proof (induction vs arbitrary: acc i)
  case Nil
  then show ?case by simp
next
  case (Cons v vs)
  show ?case
  proof (cases i)
    case 0
    then show ?thesis
      by (simp add: Let_def sql_sum_def non_null_def split: option.splits)
  next
    case (Suc j)
    with Cons.prems have j: "j < length vs" by simp
    show ?thesis
      unfolding Suc using Cons.IH [OF j]
      by (simp add: Let_def sql_sum_def non_null_def split: option.splits)
  qed
qed

lemma timeline_partition_eq:
  "timeline_partition (build_gold_xg_timeline shots events) m t = [] \<or>
   (\<exists>part. timeline_partition (build_gold_xg_timeline shots events) m t = window_partition part)"
proof -
  let ?J = "map (\<lambda>(s, e). (s, (case e of None \<Rightarrow> None | Some (m, t, name) \<Rightarrow> name)))
                     (left_join (\<lambda>s (m, t, name). s_match_id s = m \<and> sql_eq (s_team_id s) t)
                        shots (team_names events))"
  let ?pk = "\<lambda>(s, name). (s_match_id s, s_team_id s)"
  let ?ks = "remdups (map ?pk ?J)"
  let ?f = "\<lambda>k. window_partition (filter (\<lambda>r. ?pk r = k) ?J)"
  let ?W = "concat (map ?f ?ks)"
  let ?K = "\<lambda>r. (t_match_id r, nulls_last (t_team_id r), timeline_order_key r)"
  let ?key = "\<lambda>r. (t_match_id r, t_team_id r)"
  have tl: "build_gold_xg_timeline shots events = sort_key ?K ?W"
    unfolding build_gold_xg_timeline_def Let_def group_by_def
    by (simp add: comp_def)
  have P: "(\<lambda>r. t_match_id r = m \<and> t_team_id r = t) = (\<lambda>r. ?key r = (m, t))" by auto
  have keys: "\<And>k r. k \<in> set ?ks \<Longrightarrow> r \<in> set (?f k) \<Longrightarrow> ?key r = k"
  proof -
    fix k r assume "k \<in> set ?ks" and r: "r \<in> set (?f k)"
    from window_partition_key [OF r] show "?key r = k" by auto
  qed
  have fW: "filter (\<lambda>r. ?key r = (m, t)) ?W = (if (m, t) \<in> set ?ks then ?f (m, t) else [])"
    by (rule filter_concat_distinct [where key = ?key]) (simp, rule keys)
  have part: "timeline_partition (build_gold_xg_timeline shots events) m t =
      sort_key ?K (if (m, t) \<in> set ?ks then ?f (m, t) else [])"
    unfolding timeline_partition_def tl P by (simp only: filter_sort fW)
  show ?thesis
  proof (cases "(m, t) \<in> set ?ks")
    case False
    with part show ?thesis by simp
  next
    case True
    let ?c = "?f (m, t)"
    have "\<forall>r \<in> set ?c. ?key r = (m, t)" using keys [OF True] by blast
    then have "map ?K ?c = map (\<lambda>r. (m, nulls_last t, timeline_order_key r)) ?c"
      by (intro map_cong) auto
    then have "sorted (map ?K ?c)"
      by (simp only: sorted_const_prefix window_partition_sorted)
    then have "sort_key ?K ?c = ?c" by (rule sort_key_id_if_sorted)
    with part True show ?thesis by auto
  qed
qed

lemma timeline_xg_from_shots:
  assumes "r \<in> set (build_gold_xg_timeline shots events)"
  shows "\<exists>s \<in> set shots. t_xg r = s_xg s"
proof -
  let ?J = "map (\<lambda>(s, e). (s, (case e of None \<Rightarrow> None | Some (m, t, name) \<Rightarrow> name)))
                     (left_join (\<lambda>s (m, t, name). s_match_id s = m \<and> sql_eq (s_team_id s) t)
                        shots (team_names events))"
  have J: "fst ` set ?J = set shots"
  proof -
    have "fst ` set ?J = fst ` set (left_join
        (\<lambda>s (m, t, name). s_match_id s = m \<and> sql_eq (s_team_id s) t) shots (team_names events))"
      by (force simp: image_iff)
    then show ?thesis by (simp only: set_left_join_fst)
  qed
  from assms obtain k part
    where g: "(k, part) \<in> set (group_by (\<lambda>(s, name). (s_match_id s, s_team_id s)) ?J)"
      and r: "r \<in> set (window_partition part)"
    unfolding build_gold_xg_timeline_def Let_def by auto
  from set_group_by [OF g] have p: "set part \<subseteq> set ?J" by auto
  from r have "t_xg r \<in> set (map t_xg (window_partition part))" by simp
  then have "t_xg r \<in> (\<lambda>(s, name). s_xg s) ` set part"
    by (simp only: window_partition_xg set_map set_sort)
  then obtain s n where "(s, n) \<in> set part" "t_xg r = s_xg s" by auto
  with p have "(s, n) \<in> set ?J" by blast
  then have "fst (s, n) \<in> fst ` set ?J" by (rule imageI)
  with J have "s \<in> set shots" by simp
  with \<open>t_xg r = s_xg s\<close> show ?thesis by blast
qed

text \<open>
  C7. With xG a probability, within every (match, team) partition of the timeline, taken
  in the table's order: the rows are ordered by (period, minute, second); the cumulative
  xG of a row is the sum of the xG values up to and including that row (nulls are
  skipped, and the sum is null while there is none); and the cumulative xG is
  non-decreasing along the partition.
\<close>

theorem xg_timeline_cumulative_monotone:
  assumes "xg_are_probabilities shots"
  shows
  "sorted (map timeline_order_key (timeline_partition (build_gold_xg_timeline shots events) m t)) \<and>
   (\<forall>i < length (timeline_partition (build_gold_xg_timeline shots events) m t).
      t_cumulative_xg (timeline_partition (build_gold_xg_timeline shots events) m t ! i) =
        sql_sum (take (Suc i)
          (map t_xg (timeline_partition (build_gold_xg_timeline shots events) m t)))) \<and>
   sorted_wrt cumulative_le
     (map t_cumulative_xg (timeline_partition (build_gold_xg_timeline shots events) m t))"
proof -
  let ?p = "timeline_partition (build_gold_xg_timeline shots events) m t"
  have c: "map t_cumulative_xg ?p = running_sum None (map t_xg ?p)"
    using timeline_partition_eq [of shots events m t]
    by (auto simp: window_partition_cum window_partition_xg)
  have s: "sorted (map timeline_order_key ?p)"
    using timeline_partition_eq [of shots events m t]
    by (auto simp: window_partition_sorted)
  have n: "\<forall>i < length ?p. t_cumulative_xg (?p ! i) = sql_sum (take (Suc i) (map t_xg ?p))"
  proof (intro allI impI)
    fix i assume i: "i < length ?p"
    then have "t_cumulative_xg (?p ! i) = map t_cumulative_xg ?p ! i" by simp
    also have "\<dots> = running_sum None (map t_xg ?p) ! i" by (simp only: c)
    also have "\<dots> = sql_sum (take (Suc i) (map t_xg ?p))"
      using i by (simp add: running_sum_nth)
    finally show "t_cumulative_xg (?p ! i) = sql_sum (take (Suc i) (map t_xg ?p))" .
  qed
  have nonneg: "\<forall>x. Some x \<in> set (map t_xg ?p) \<longrightarrow> 0 \<le> x"
  proof (intro allI impI)
    fix x assume "Some x \<in> set (map t_xg ?p)"
    then obtain r where r: "r \<in> set ?p" "t_xg r = Some x" by auto
    from r(1) have "r \<in> set (build_gold_xg_timeline shots events)"
      unfolding timeline_partition_def by simp
    from timeline_xg_from_shots [OF this] r(2)
    obtain sh where "sh \<in> set shots" "s_xg sh = Some x" by auto
    with assms show "0 \<le> x"
      unfolding xg_are_probabilities_def list_all_iff by force
  qed
  have m: "sorted_wrt cumulative_le (map t_cumulative_xg ?p)"
    unfolding c using running_sum_mono [OF nonneg, of None] by (rule conjunct1)
  from s n m show ?thesis by (intro conjI)
qed

lemmas timeline_eval =
  build_gold_xg_timeline_def timeline_partition_def left_join_def group_by_def team_names_def
  sql_eq_def window_partition_def shot_order_key_def timeline_order_key_def nulls_last_def
  less_eq_prod_def gold_examples

theorem xg_timeline_cumulative_monotone_witness:
  "xg_are_probabilities two_shots \<and>
   map t_cumulative_xg (timeline_partition (build_gold_xg_timeline two_shots gold_events) 1 (Some 1))
     = [Some 0.45, Some 0.75] \<and>
   sorted_wrt cumulative_le
     (map t_cumulative_xg (timeline_partition (build_gold_xg_timeline two_shots gold_events) 1 (Some 1)))"
proof -
  have h: "xg_are_probabilities two_shots"
    by (simp add: xg_are_probabilities_def two_shots_def gold_shot_def)
  have c: "map t_cumulative_xg
      (timeline_partition (build_gold_xg_timeline two_shots gold_events) 1 (Some 1))
      = [Some 0.45, Some 0.75]"
    by (simp add: timeline_eval two_shots_def)
  from xg_timeline_cumulative_monotone [OF h, of gold_events 1 "Some 1"]
  have "sorted_wrt cumulative_le (map t_cumulative_xg
      (timeline_partition (build_gold_xg_timeline two_shots gold_events) 1 (Some 1)))"
    by (elim conjE)
  with h c show ?thesis by (intro conjI)
qed

subsection \<open>PPDA\<close>

lemma in_left_join:
  assumes "(l, r) \<in> set (left_join on ls rs)"
  shows "l \<in> set ls \<and>
     (case r of None \<Rightarrow> \<forall>x \<in> set rs. \<not> on l x | Some x \<Rightarrow> x \<in> set rs \<and> on l x)"
proof -
  from assms obtain l' where l': "l' \<in> set ls"
    and m: "(l, r) \<in> set (case filter (on l') rs of [] \<Rightarrow> [(l', None)]
                           | ms \<Rightarrow> map (\<lambda>r. (l', Some r)) ms)"
    unfolding left_join_def by auto
  show ?thesis
  proof (cases "filter (on l') rs")
    case Nil
    with m have "l = l'" "r = None" by auto
    moreover from Nil have "\<forall>x \<in> set rs. \<not> on l' x" by (simp add: filter_empty_conv)
    ultimately show ?thesis using l' by simp
  next
    case (Cons a as)
    with m obtain x where "x \<in> set (filter (on l') rs)" "l = l'" "r = Some x" by auto
    then show ?thesis using l' by simp
  qed
qed

lemma np_round_nonneg: "0 \<le> x \<Longrightarrow> 0 \<le> np_round x n"
proof -
  assume "0 \<le> x"
  then have "0 \<le> x * 10 ^ n" by simp
  then have "0 \<le> \<lfloor>x * 10 ^ n\<rfloor>" by simp
  then show ?thesis unfolding np_round_def Let_def by (auto intro!: divide_nonneg_nonneg)
qed

lemma zone_counts_pos:
  "((m, t, n), c) \<in> set (zone_counts types events) \<Longrightarrow>
     1 \<le> c \<and> (\<exists>e \<in> set events. fe_match_id e = m \<and> fe_team_id e = t \<and> in_press_zone e \<and>
        (case fe_type e of None \<Rightarrow> False | Some ty \<Rightarrow> ty \<in> set types))"
proof -
  assume "((m, t, n), c) \<in> set (zone_counts types events)"
  then obtain g where g: "((m, t, n), g) \<in> set (group_by (\<lambda>e. (fe_match_id e, fe_team_id e, fe_team e))
          (filter (\<lambda>e. (case fe_type e of None \<Rightarrow> False | Some ty \<Rightarrow> ty \<in> set types) \<and>
                         in_press_zone e) events))" and c: "c = length g"
    unfolding zone_counts_def by auto
  from set_group_by [OF g] have ne: "g \<noteq> []" by (elim conjE)
  from set_group_by [OF g] have k: "(m, t, n) \<in> (\<lambda>e. (fe_match_id e, fe_team_id e, fe_team e)) ` set (filter (\<lambda>e. (case fe_type e of None \<Rightarrow> False | Some ty \<Rightarrow> ty \<in> set types) \<and>
                         in_press_zone e) events)" by (elim conjE)
  from ne c have "1 \<le> c" by (cases g) auto
  moreover from k have "\<exists>e \<in> set events. fe_match_id e = m \<and> fe_team_id e = t \<and> in_press_zone e \<and>
        (case fe_type e of None \<Rightarrow> False | Some ty \<Rightarrow> ty \<in> set types)" by auto
  ultimately show ?thesis by simp
qed

text \<open>
  C9. In every row of the per-match PPDA table the denominator is at least 1, and it is
  exactly 1 when the events hold no defensive action of that team in the press zone in
  that match; so the division is never by zero, and the PPDA value, the rounded ratio of
  a non-negative count and that denominator, is non-negative.
\<close>

theorem ppda_denominator_floored:
  "\<forall>r \<in> set (ppda_match events).
      1 \<le> pm_def_actions r \<and> 0 \<le> pm_opp_passes_in_zone r \<and> 0 \<le> pm_ppda r \<and>
      pm_ppda r = np_round (pm_opp_passes_in_zone r / pm_def_actions r) 2 \<and>
      (\<not> has_def_action events (pm_match_id r) (pm_team_id r) \<longrightarrow> pm_def_actions r = 1)"
proof
  fix r assume "r \<in> set (ppda_match events)"
  then obtain x where xin: "x \<in> set (left_join (\<lambda>(((m, t, n), opp), p) ((dm, dt, dn), c). dm = m \<and> dt = t)
        (left_join (\<lambda>((m, t, n), (m', ot, on)) ((pm, pt, pn), c). pm = m \<and> pt = ot)
           (filter (\<lambda>((m, t, n), (m', ot, on)). pandas_ne t ot)
                    (concat (map (\<lambda>l. map (\<lambda>r. (l, r))
                                          (filter (\<lambda>r. fst r = fst l) (match_teams events)))
                                 (match_teams events))))
           (passes_in_zone events))
        (def_actions events))"
    and rx: "r = (\<lambda>((((m, t, n), opp), p), d).
                \<lparr> pm_match_id = m, pm_team_id = t, pm_team = n,
                  pm_opp_passes_in_zone = (case p of None \<Rightarrow> 0 | Some (k, c) \<Rightarrow> real c),
                  pm_def_actions = (case d of None \<Rightarrow> 1 | Some (k, c) \<Rightarrow> real c),
                  pm_ppda = np_round ((case p of None \<Rightarrow> 0 | Some (k, c) \<Rightarrow> real c) /
                                      (case d of None \<Rightarrow> 1 | Some (k, c) \<Rightarrow> real c)) 2 \<rparr>) x"
    unfolding ppda_match_def Let_def by auto
  obtain m t n opp p d where x: "x = ((((m, t, n), opp), p), d)"
    by (metis prod.exhaust)
  have r: "r = \<lparr> pm_match_id = m, pm_team_id = t, pm_team = n,
                  pm_opp_passes_in_zone = (case p of None \<Rightarrow> 0 | Some (k, c) \<Rightarrow> real c),
                  pm_def_actions = (case d of None \<Rightarrow> 1 | Some (k, c) \<Rightarrow> real c),
                  pm_ppda = np_round ((case p of None \<Rightarrow> 0 | Some (k, c) \<Rightarrow> real c) /
                                      (case d of None \<Rightarrow> 1 | Some (k, c) \<Rightarrow> real c)) 2 \<rparr>"
    unfolding rx x by simp
  note xin [unfolded x]
  from in_left_join [OF this]
  have dcase: "case d of None \<Rightarrow> True | Some x \<Rightarrow> x \<in> set (def_actions events) \<and>
      (\<lambda>(((m, t, n), opp), p) ((dm, dt, dn), c). dm = m \<and> dt = t) (((m, t, n), opp), p) x"
    by (auto split: option.splits)
  have d1: "1 \<le> (case d of None \<Rightarrow> 1 | Some (k, c) \<Rightarrow> real c)"
   and dz: "\<not> has_def_action events m t \<longrightarrow> (case d of None \<Rightarrow> 1 | Some (k, c) \<Rightarrow> real c) = 1"
  proof -
    show "1 \<le> (case d of None \<Rightarrow> 1 | Some (k, c) \<Rightarrow> real c)"
    proof (cases d)
      case None then show ?thesis by simp
    next
      case (Some y)
      obtain dm dt dn c where y: "y = ((dm, dt, dn), c)" by (metis prod.exhaust)
      with dcase Some have "((dm, dt, dn), c) \<in> set (def_actions events)" by auto
      from zone_counts_pos [OF this [unfolded def_actions_def]] have "1 \<le> c" by simp
      with Some y show ?thesis by simp
    qed
    show "\<not> has_def_action events m t \<longrightarrow> (case d of None \<Rightarrow> 1 | Some (k, c) \<Rightarrow> real c) = 1"
    proof (cases d)
      case None then show ?thesis by simp
    next
      case (Some y)
      obtain dm dt dn c where y: "y = ((dm, dt, dn), c)" by (metis prod.exhaust)
      with dcase Some have in_d: "((dm, dt, dn), c) \<in> set (def_actions events)" and k: "dm = m" "dt = t" by auto
      from zone_counts_pos [OF in_d [unfolded def_actions_def]] k
      have "has_def_action events m t"
        unfolding has_def_action_def by (auto simp: filter_empty_conv)
      then show ?thesis by simp
    qed
  qed
  have p0: "0 \<le> (case p of None \<Rightarrow> 0 | Some (k, c) \<Rightarrow> real c)"
    by (auto split: option.splits)
  have q: "0 \<le> (case p of None \<Rightarrow> 0 | Some (k, c) \<Rightarrow> real c) / (case d of None \<Rightarrow> 1 | Some (k, c) \<Rightarrow> real c)"
    using p0 d1 by (intro divide_nonneg_nonneg) linarith+
  show "1 \<le> pm_def_actions r \<and> 0 \<le> pm_opp_passes_in_zone r \<and> 0 \<le> pm_ppda r \<and>
      pm_ppda r = np_round (pm_opp_passes_in_zone r / pm_def_actions r) 2 \<and>
      (\<not> has_def_action events (pm_match_id r) (pm_team_id r) \<longrightarrow> pm_def_actions r = 1)"
    unfolding r using d1 dz p0 np_round_nonneg [OF q, of 2] by simp
qed

lemmas ppda_eval =
  ppda_match_def left_join_def group_by_def match_teams_def passes_in_zone_def def_actions_def
  zone_counts_def in_press_zone_def PRESS_ZONE_X_def pandas_ne_def np_round_def gold_examples

text \<open>The example match has passes in the press zone and no defensive action: both
  denominators are floored at 1.\<close>

theorem ppda_denominator_floored_witness:
  "map (\<lambda>r. (pm_team_id r, pm_opp_passes_in_zone r, pm_def_actions r, pm_ppda r))
       (ppda_match gold_events) = [(Some 2, 2, 1, 2), (Some 1, 1, 1, 1)] \<and>
   \<not> has_def_action gold_events 1 (Some 1) \<and>
   list_all (\<lambda>r. 1 \<le> pm_def_actions r \<and> 0 \<le> pm_ppda r) (ppda_match gold_events)"
proof -
  have v: "map (\<lambda>r. (pm_team_id r, pm_opp_passes_in_zone r, pm_def_actions r, pm_ppda r))
       (ppda_match gold_events) = [(Some 2, 2, 1, 2), (Some 1, 1, 1, 1)]"
    by (simp add: ppda_eval)
  have n: "\<not> has_def_action gold_events 1 (Some 1)"
    by (simp add: has_def_action_def gold_examples)
  from ppda_denominator_floored [of gold_events]
  have a: "list_all (\<lambda>r. 1 \<le> pm_def_actions r \<and> 0 \<le> pm_ppda r) (ppda_match gold_events)"
    unfolding list_all_iff by fast
  from v n a show ?thesis by (intro conjI)
qed

end
